theory Spec2Isabelle
  imports
    Main
    "HOL-Library.Char_ord"
    "HOL-Library.List_Lexorder"
    "HOL-Library.FSet"
    "HOL-Library.Finite_Map"
begin

section \<open>Byte strings\<close>

text \<open>
  A Go \<open>[]byte\<close> and a Go \<open>string\<close> are both sequences of bytes; they are modelled as
  \<open>string\<close> (a list of 8-bit characters). With \<open>Char_ord\<close> and \<open>List_Lexorder\<close> the order
  on \<open>string\<close> is the byte-wise lexicographic order, which is the order of Go's \<open><\<close> on
  strings and therefore of \<open>sort.Strings\<close>.
\<close>

definition newline :: char where
  "newline = CHR 0x0A"

text \<open>
  \<open>bytes.Split(s, sep)\<close> and \<open>strings.Split(s, sep)\<close> for a separator of one byte: the
  pieces between the occurrences of the separator; an input without the separator (the empty
  one too) gives one piece.
\<close>

fun Split :: "string \<Rightarrow> char \<Rightarrow> string list" where
  "Split [] sep = [[]]"
| "Split (c # cs) sep =
     (if c = sep then [] # Split cs sep
      else (case Split cs sep of
              [] \<Rightarrow> [[c]]
            | piece # pieces \<Rightarrow> (c # piece) # pieces))"

text \<open>\<open>bytes.Join(pieces, sep)\<close> for a separator of one byte.\<close>

fun Join :: "string list \<Rightarrow> char \<Rightarrow> string" where
  "Join [] sep = []"
| "Join [piece] sep = piece"
| "Join (piece # pieces) sep = piece @ sep # Join pieces sep"

definition HasPrefix :: "string \<Rightarrow> string \<Rightarrow> bool" where
  "HasPrefix s pre = (take (length pre) s = pre)"

text \<open>
  \<open>bytes.TrimSpace\<close> slices off leading and trailing white space as defined by Unicode. On a
  byte string that is the six ASCII space characters and the UTF-8 encodings of the other
  code points with the White_Space property (U+0085, U+00A0, U+1680, U+2000 to U+200A,
  U+2028, U+2029, U+202F, U+205F, U+3000).
\<close>

definition whiteSpace :: "string list" where
  "whiteSpace =
     [[CHR 0x09], [CHR 0x0A], [CHR 0x0B], [CHR 0x0C], [CHR 0x0D], [CHR 0x20],
      [CHR 0xC2, CHR 0x85], [CHR 0xC2, CHR 0xA0], [CHR 0xE1, CHR 0x9A, CHR 0x80],
      [CHR 0xE2, CHR 0x80, CHR 0x80], [CHR 0xE2, CHR 0x80, CHR 0x81], [CHR 0xE2, CHR 0x80, CHR 0x82],
      [CHR 0xE2, CHR 0x80, CHR 0x83], [CHR 0xE2, CHR 0x80, CHR 0x84], [CHR 0xE2, CHR 0x80, CHR 0x85],
      [CHR 0xE2, CHR 0x80, CHR 0x86], [CHR 0xE2, CHR 0x80, CHR 0x87], [CHR 0xE2, CHR 0x80, CHR 0x88],
      [CHR 0xE2, CHR 0x80, CHR 0x89], [CHR 0xE2, CHR 0x80, CHR 0x8A],
      [CHR 0xE2, CHR 0x80, CHR 0xA8], [CHR 0xE2, CHR 0x80, CHR 0xA9], [CHR 0xE2, CHR 0x80, CHR 0xAF],
      [CHR 0xE2, CHR 0x81, CHR 0x9F], [CHR 0xE3, CHR 0x80, CHR 0x80]]"

fun stripOne :: "string list \<Rightarrow> string \<Rightarrow> string option" where
  "stripOne [] s = None"
| "stripOne (w # ws) s =
     (if w \<noteq> [] \<and> take (length w) s = w then Some (drop (length w) s) else stripOne ws s)"

function trimLeft :: "string list \<Rightarrow> string \<Rightarrow> string" where
  "trimLeft ws s = (case stripOne ws s of None \<Rightarrow> s | Some s' \<Rightarrow> trimLeft ws s')"
  by pat_completeness auto
termination
proof (relation "measure (\<lambda>(ws, s). length s)")
  show "wf (measure (\<lambda>(ws :: string list, s :: string). length s))"
    by simp
next
  fix ws :: "string list" and s s' :: string
  assume "stripOne ws s = Some s'"
  then have "length s' < length s"
  proof (induction ws)
    case Nil
    then show ?case by simp
  next
    case (Cons w ws)
    show ?case
    proof (cases "w \<noteq> [] \<and> take (length w) s = w")
      case True
      with Cons.prems have s': "s' = drop (length w) s" by simp
      from True have "length w \<le> length s"
        by (metis length_take min.cobounded1)
      moreover from True have "0 < length w" by simp
      ultimately have "length s - length w < length s" by arith
      then show ?thesis using s' by simp
    next
      case False
      with Cons show ?thesis by auto
    qed
  qed
  then show "((ws, s'), ws, s) \<in> measure (\<lambda>(ws, s). length s)"
    by simp
qed

declare trimLeft.simps [simp del]

definition TrimSpace :: "string \<Rightarrow> string" where
  "TrimSpace s = rev (trimLeft (map rev whiteSpace) (rev (trimLeft whiteSpace s)))"

section \<open>Package git: cleaning file content\<close>

text \<open>
  The loop of \<open>cleanYAMLContent\<close> over the lines: the flag \<open>skippingLeadingContent\<close> and the
  slice \<open>result\<close> are the loop's state.
\<close>

fun cleanLoop :: "string list \<Rightarrow> bool \<Rightarrow> string list \<Rightarrow> string list" where
  "cleanLoop [] skippingLeadingContent result = result"
| "cleanLoop (line # lines) skippingLeadingContent result =
     (let trimmed = TrimSpace line in
      if skippingLeadingContent \<and> HasPrefix trimmed ''#''
        then cleanLoop lines skippingLeadingContent result
      else if skippingLeadingContent \<and> length trimmed = 0
        then cleanLoop lines skippingLeadingContent result
      else if skippingLeadingContent \<and> trimmed = ''---''
        then cleanLoop lines skippingLeadingContent result
      else cleanLoop lines False (result @ [line]))"

definition cleanYAMLContent :: "string \<Rightarrow> string" where
  "cleanYAMLContent content =
     (let result = cleanLoop (Split content newline) True [] in
      if length result = 0 then [] else Join result newline)"

text \<open>
  A line of the leading run: its trimmed form is a comment, empty, or the document
  separator.
\<close>

definition leadingLine :: "string \<Rightarrow> bool" where
  "leadingLine line =
     (let trimmed = TrimSpace line in
      HasPrefix trimmed ''#'' \<or> trimmed = [] \<or> trimmed = ''---'')"

section \<open>Decimal formatting\<close>

text \<open>The verb \<open>%d\<close> of \<open>fmt.Sprintf\<close>: the decimal digits, with a minus sign when negative.\<close>

definition digitChar :: "nat \<Rightarrow> char" where
  "digitChar d = char_of (48 + d)"

fun fmtNat :: "nat \<Rightarrow> string" where
  "fmtNat n = (if n < 10 then [digitChar n] else fmtNat (n div 10) @ [digitChar (n mod 10)])"

declare fmtNat.simps [simp del]

definition fmtInt :: "int \<Rightarrow> string" where
  "fmtInt i = (if i < 0 then CHR ''-'' # fmtNat (nat (- i)) else fmtNat (nat i))"

section \<open>Data model\<close>

text \<open>
  A Go \<open>error\<close>: a message, or a message wrapping another error (\<open>fmt.Errorf\<close> with
  \<open>%w\<close>). The repository-format error of \<open>parseRepo\<close> has a constructor of its own, which
  tells it from every other error.
\<close>

datatype error =
    Failure string
  | InvalidRepositoryFormat string
  | Wrap string error

text \<open>
  A decoded YAML value (\<open>interface{}\<close> as \<open>yaml.v3\<close> fills it): a scalar, a sequence or a
  mapping with string keys. A mapping is an association list read through \<open>map_of\<close>; what
  the functions below compute depends on the list only through its lookups and its key set.
\<close>

datatype scalar = SStr string | SNum int | SBool bool | SNull

datatype yaml = Scalar scalar | Sequence "yaml list" | Mapping "(string \<times> yaml) list"

type_synonym content = "(string \<times> yaml) list"

text \<open>
  \<open>parser.Document\<close>, with the three fields that \<open>ParseFilesWithSourceTracking\<close> fills: the
  decoded \<open>map[string]interface{}\<close>, its marshalled text, and the file. The field
  \<open>SourceFile\<close> is a Go string: the empty string stands for no source file.
\<close>

record Document =
  Content :: content
  Raw :: string
  SourceFile :: string

text \<open>
  Modelled from the spec: the type \<open>Difference\<close> of the value comparator (package \<open>parser\<close>
  is not among the sources): a path of keys and indices, a kind, and the old and new value.
\<close>

datatype path_elem = PKey string | PIndex nat

datatype diff_kind = ValueChanged | KeyAdded | KeyRemoved | ArrayLengthChanged

record Difference =
  Path :: "path_elem list"
  Kind :: diff_kind
  OldValue :: "yaml option"
  NewValue :: "yaml option"

text \<open>
  Modelled from the spec: the type \<open>diff.Result\<close> (package \<open>diff\<close> is not among the
  sources): three Go maps keyed by identity. The sources use them through \<open>len\<close> and
  \<open>range\<close> only; the value types are the spec's, a Document for an added or deleted
  identity and the sequence of differences for a modified one. A Go map is a finite map.
\<close>

record Result =
  Added :: "(string, Document) fmap"
  Deleted :: "(string, Document) fmap"
  Modified :: "(string, Difference list) fmap"

text \<open>\<open>len(m)\<close> of a Go map.\<close>

definition len :: "('k, 'v) fmap \<Rightarrow> nat" where
  "len m = fcard (fmdom m)"

text \<open>
  \<open>github.TemplateData\<close>. The counts are Go \<open>int\<close>s that hold a \<open>len\<close>, so they are natural
  numbers far below the word size. \<open>Vars\<close> is a \<open>map[string]interface{}\<close>; its only producer,
  \<open>handleConfigBasedIntegration\<close>, stores strings in it.
\<close>

record TemplateData =
  Summary :: string
  Details :: string
  HasChanges :: bool
  Added :: nat
  Deleted :: nat
  Modified :: nat
  AddedList :: "string list"
  DeletedList :: "string list"
  ModifiedList :: "string list"
  Link :: string
  Vars :: "(string, string) fmap"

text \<open>
  Modelled from the spec: the part of package \<open>config\<close> (not among the sources) that
  \<open>handleConfigBasedIntegration\<close> reads: the comparison section of the configuration file
  with its template, its four labels and its two switches, and the repository name that
  \<open>GetRepoFullName\<close> returns.
\<close>

record CompareConfig =
  Template :: string
  WhenHasAdditions :: string
  WhenHasDeletions :: string
  WhenHasModifications :: string
  WhenNoChanges :: string
  DisableComment :: bool
  DisableLabel :: bool

record Config =
  RepoFullName :: string
  Compare_section :: CompareConfig

text \<open>\<open>CompareCmd\<close>, the parsed command line of the compare command.\<close>

record CompareCmd =
  File1 :: string
  File2 :: string
  Key :: string
  ShowCounts :: bool
  Verbose :: bool
  NoColor :: bool
  GitCompare :: string
  GithubLabel :: bool
  GithubRepo :: string
  GithubPR :: int
  GithubToken :: string
  ChangesLabel :: string
  NoChangesLabel :: string
  Config :: string
  PostComment :: bool
  Link :: string
  Var :: "(string, string) fmap"

text \<open>
  What the process finds outside itself, one field for each outside call of the sources: the
  two git commands, the file system, the YAML library (the documents that a decoder yields
  from a byte string until \<open>io.EOF\<close>, or its first error; the text that \<open>yaml.Marshal\<close>
  gives), the functions \<open>parser.ParseMultiDocYAML\<close> and \<open>config.LoadConfig\<close> that are not
  among the sources, the environment variable \<open>GITHUB_TOKEN\<close>, the \<open>text/template\<close>
  library, the two calls of the GitHub API, each answering with an error or with none, and
  the text that \<open>Result.Print\<close> (package \<open>diff\<close>, not among the sources) writes in verbose
  mode.
\<close>

record world =
  gitDiffNameOnly :: "string \<Rightarrow> error + string"
  gitShow :: "string \<Rightarrow> string \<Rightarrow> error + string"
  fileExists :: "string \<Rightarrow> bool"
  readFile :: "string \<Rightarrow> error + string"
  yamlDecode :: "string \<Rightarrow> error + content list"
  yamlMarshal :: "content \<Rightarrow> string"
  ParseMultiDocYAML :: "string \<Rightarrow> error + Document list"
  LoadConfig :: "string \<Rightarrow> error + Config"
  GITHUB_TOKEN :: string
  templateParse :: "string \<Rightarrow> error option"
  templateExecute :: "string \<Rightarrow> TemplateData \<Rightarrow> error + string"
  CreateComment :: "string \<Rightarrow> string \<Rightarrow> int \<Rightarrow> string \<Rightarrow> error option"
  AddLabelsToIssue :: "string \<Rightarrow> string \<Rightarrow> int \<Rightarrow> string list \<Rightarrow> error option"
  PrintVerbose :: "Result \<Rightarrow> string"

text \<open>A request sent to the GitHub API; the functions below return the requests they sent.\<close>

datatype request =
    CommentRequest string string int string
  | LabelsRequest string string int "string list"

section \<open>Package git: reading the two versions\<close>

definition HasSuffix :: "string \<Rightarrow> string \<Rightarrow> bool" where
  "HasSuffix s suf = (length suf \<le> length s \<and> drop (length s - length suf) s = suf)"

text \<open>
  \<open>GetChangedYAMLFiles\<close>. Both error branches wrap the error of the command; they differ in
  the message text only.
\<close>

fun changedLoop :: "world \<Rightarrow> string list \<Rightarrow> string list \<Rightarrow> string list" where
  "changedLoop w [] yamlFiles = yamlFiles"
| "changedLoop w (line # lines) yamlFiles =
     (let filename = TrimSpace line in
      if filename = [] then changedLoop w lines yamlFiles
      else if HasSuffix line ''.yaml'' \<or> HasSuffix line ''.yml''
        then (if fileExists w filename then changedLoop w lines (yamlFiles @ [filename])
              else changedLoop w lines yamlFiles)
      else changedLoop w lines yamlFiles)"

definition GetChangedYAMLFiles :: "world \<Rightarrow> string \<Rightarrow> error + string list" where
  "GetChangedYAMLFiles w branch =
     (case gitDiffNameOnly w branch of
        Inl err \<Rightarrow> Inl (Wrap ''failed to get changed files from git'' err)
      | Inr output \<Rightarrow> Inr (changedLoop w (Split output newline) []))"

text \<open>
  The decoding loop of \<open>ParseFilesWithSourceTracking\<close>: every decoded document becomes a
  Document that carries the file as its source; at an error of the decoder the function
  returns that error and no documents.
\<close>

definition decodeDocuments :: "world \<Rightarrow> string \<Rightarrow> string \<Rightarrow> error + Document list" where
  "decodeDocuments w cleaned file =
     (case yamlDecode w cleaned of
        Inl err \<Rightarrow> Inl err
      | Inr docs \<Rightarrow>
          Inr (map (\<lambda>doc. \<lparr>Content = doc, Raw = yamlMarshal w doc, SourceFile = file\<rparr>) docs))"

text \<open>
  The loop of \<open>ParseFilesWithSourceTracking\<close> over the files, with \<open>oldDocs\<close> and \<open>newDocs\<close>
  as its state. A failing \<open>git show\<close> is the branch \<open>(new file)\<close>: nothing is added to
  \<open>oldDocs\<close>, and the function goes on to the current version.
\<close>

fun parseFilesLoop ::
  "world \<Rightarrow> string \<Rightarrow> string list \<Rightarrow> Document list \<Rightarrow> Document list
    \<Rightarrow> error + (Document list \<times> Document list)" where
  "parseFilesLoop w branch [] oldDocs newDocs = Inr (oldDocs, newDocs)"
| "parseFilesLoop w branch (file # files) oldDocs newDocs =
     (case (case gitShow w branch file of
              Inr output \<Rightarrow>
                (case decodeDocuments w (cleanYAMLContent output) file of
                   Inl err \<Rightarrow> Inl (Wrap (''failed to parse old version of '' @ file) err)
                 | Inr docs \<Rightarrow> Inr (oldDocs @ docs))
            | Inl gitErr \<Rightarrow> Inr oldDocs) of
        Inl err \<Rightarrow> Inl err
      | Inr oldDocs' \<Rightarrow>
          (case readFile w file of
             Inl err \<Rightarrow> Inl (Wrap (''failed to read '' @ file) err)
           | Inr content \<Rightarrow>
               (case decodeDocuments w (cleanYAMLContent content) file of
                  Inl err \<Rightarrow> Inl (Wrap (''failed to parse new version of '' @ file) err)
                | Inr docs \<Rightarrow> parseFilesLoop w branch files oldDocs' (newDocs @ docs))))"

definition ParseFilesWithSourceTracking ::
  "world \<Rightarrow> string \<Rightarrow> string list \<Rightarrow> error + (Document list \<times> Document list)" where
  "ParseFilesWithSourceTracking w branch files = parseFilesLoop w branch files [] []"

section \<open>Package parser: identity and value comparison\<close>

text \<open>
  Modelled from the spec: the walk of the Identity Resolver (\<open>parser.ExtractKey\<close>, not among
  the sources) along the segments of the key path through nested mappings; a missing
  segment or an intermediate value that is no mapping gives no value.
\<close>

fun lookupPath :: "string list \<Rightarrow> yaml \<Rightarrow> yaml option" where
  "lookupPath [] v = Some v"
| "lookupPath (seg # segs) (Mapping m) =
     (case map_of m seg of None \<Rightarrow> None | Some v \<Rightarrow> lookupPath segs v)"
| "lookupPath (seg # segs) v = None"

text \<open>
  Modelled from the spec: the keys of a mapping in lexicographic order, each once (the
  order in which the comparator and the serialization of package \<open>parser\<close>, which is not
  among the sources, visit a mapping).
\<close>

definition keysOf :: "content \<Rightarrow> string list" where
  "keysOf m = sort (remdups (map fst m))"

text \<open>
  Modelled from the spec: the serialization from which the synthetic identity is derived
  (package \<open>parser\<close> is not among the sources); it is a function of the value alone.
\<close>

function serialize :: "yaml \<Rightarrow> string" where
  "serialize (Scalar (SStr s)) = CHR 0x22 # s @ [CHR 0x22]"
| "serialize (Scalar (SNum n)) = fmtInt n"
| "serialize (Scalar (SBool b)) = (if b then ''true'' else ''false'')"
| "serialize (Scalar SNull) = ''null''"
| "serialize (Sequence xs) = ''['' @ concat (map (\<lambda>x. serialize x @ '','') xs) @ '']''"
| "serialize (Mapping m) =
     ''{'' @ concat (map (\<lambda>k. case map_of m k of
                                None \<Rightarrow> []
                              | Some v \<Rightarrow> k @ '':'' @ serialize v @ '','') (keysOf m)) @ ''}''"
  by pat_completeness auto
termination
proof (relation "measure size")
  show "wf (measure (size :: yaml \<Rightarrow> nat))"
    by simp
next
  fix xs :: "yaml list" and x
  assume "x \<in> set xs"
  then have "size x \<le> size_list size xs"
    by (rule size_list_estimation') simp
  then show "(x, Sequence xs) \<in> measure size"
    by simp
next
  fix m :: content and k v
  assume "map_of m k = Some v"
  then have "size v < Suc (size_list (size_prod (\<lambda>_. 0) size) m)"
  proof (induction m)
    case Nil
    then show ?case by simp
  next
    case (Cons kv m)
    then show ?case by (cases kv) (auto split: if_splits)
  qed
  then show "(v, Mapping m) \<in> measure size"
    by simp
qed

text \<open>
  Modelled from the spec: the identity that a scalar gives (package \<open>parser\<close> is not among
  the sources): the text of a string, a number or a boolean; none for null.
\<close>

definition scalarText :: "scalar \<Rightarrow> string option" where
  "scalarText s =
     (case s of
        SStr t \<Rightarrow> Some t
      | SNum n \<Rightarrow> Some (fmtInt n)
      | SBool b \<Rightarrow> Some (if b then ''true'' else ''false'')
      | SNull \<Rightarrow> None)"

text \<open>
  Modelled from the spec: the synthetic identity of a document (package \<open>parser\<close> is not
  among the sources), derived from the serialization of its full content.
\<close>

definition synthetic :: "Document \<Rightarrow> string" where
  "synthetic doc = serialize (Mapping (Content doc))"

text \<open>
  Modelled from the spec: \<open>resolve(document, keyPath)\<close> of the Identity Resolver (package
  \<open>parser\<close> is not among the sources).
\<close>

definition resolve :: "Document \<Rightarrow> string \<Rightarrow> string" where
  "resolve doc keyPath =
     (case lookupPath (Split keyPath CHR ''.'') (Mapping (Content doc)) of
        Some (Scalar s) \<Rightarrow> (case scalarText s of Some t \<Rightarrow> t | None \<Rightarrow> synthetic doc)
      | _ \<Rightarrow> synthetic doc)"

text \<open>
  Modelled from the spec: one Difference of the Value Comparator (package \<open>parser\<close> is not
  among the sources), made of its path, its kind and the two values.
\<close>

definition difference :: "path_elem list \<Rightarrow> diff_kind \<Rightarrow> yaml option \<Rightarrow> yaml option \<Rightarrow> Difference" where
  "difference p k old new = \<lparr>Path = p, Kind = k, OldValue = old, NewValue = new\<rparr>"

text \<open>
  Modelled from the spec: the Value Comparator (\<open>parser.CompareValues\<close>, not among the
  sources). Two mappings are compared key by key over the union of their keys in
  lexicographic order; two sequences index by index over the shorter length, after one
  difference for the lengths when they differ; two scalars by equality; values of different
  kinds give one difference for the whole subtree.
\<close>

function (sequential) CompareValues :: "yaml \<Rightarrow> yaml \<Rightarrow> path_elem list \<Rightarrow> Difference list" where
  "CompareValues (Mapping m1) (Mapping m2) path =
     concat (map (\<lambda>k.
        case map_of m1 k of
          None \<Rightarrow> (case map_of m2 k of
                     None \<Rightarrow> []
                   | Some b \<Rightarrow> [difference (path @ [PKey k]) KeyAdded None (Some b)])
        | Some a \<Rightarrow> (case map_of m2 k of
                       None \<Rightarrow> [difference (path @ [PKey k]) KeyRemoved (Some a) None]
                     | Some b \<Rightarrow> CompareValues a b (path @ [PKey k])))
       (keysOf (m1 @ m2)))"
| "CompareValues (Sequence xs) (Sequence ys) path =
     (if length xs \<noteq> length ys
      then [difference path ArrayLengthChanged
              (Some (Scalar (SNum (int (length xs))))) (Some (Scalar (SNum (int (length ys)))))]
      else [])
     @ concat (map (\<lambda>i. CompareValues (xs ! i) (ys ! i) (path @ [PIndex i]))
                [0 ..< min (length xs) (length ys)])"
| "CompareValues (Scalar a) (Scalar b) path =
     (if a = b then [] else [difference path ValueChanged (Some (Scalar a)) (Some (Scalar b))])"
| "CompareValues old new path = [difference path ValueChanged (Some old) (Some new)]"
  by pat_completeness auto
termination
proof (relation "measure (\<lambda>(old, new, path). size old)")
  show "wf (measure (\<lambda>(old, new, path). size old))"
    by simp
next
  fix m1 m2 :: content and path :: "path_elem list" and k a b
  assume "map_of m1 k = Some a"
  then have "size a < Suc (size_list (size_prod (\<lambda>_. 0) size) m1)"
  proof (induction m1)
    case Nil
    then show ?case by simp
  next
    case (Cons kv m1)
    then show ?case by (cases kv) (auto split: if_splits)
  qed
  then show "((a, b, path @ [PKey k]), Mapping m1, Mapping m2, path)
      \<in> measure (\<lambda>(old, new, path). size old)"
    by simp
next
  fix xs ys :: "yaml list" and path :: "path_elem list" and i
  assume "i \<in> set [0 ..< min (length xs) (length ys)]"
  then have "xs ! i \<in> set xs"
    by simp
  then have "size (xs ! i) \<le> size_list size xs"
    by (rule size_list_estimation') simp
  then show "((xs ! i, ys ! i, path @ [PIndex i]), Sequence xs, Sequence ys, path)
      \<in> measure (\<lambda>(old, new, path). size old)"
    by simp
qed

section \<open>Package diff: the engine\<close>

text \<open>
  Modelled from the spec: the collision test of the Diff Engine (package \<open>diff\<close> is not
  among the sources): the raw identity of the document is also the raw identity of a
  document of the same set, and the two carry distinct source files.
\<close>

definition collides :: "string \<Rightarrow> Document list \<Rightarrow> Document \<Rightarrow> bool" where
  "collides keyPath docs doc =
     list_ex (\<lambda>other. resolve other keyPath = resolve doc keyPath
                \<and> SourceFile other \<noteq> [] \<and> SourceFile doc \<noteq> []
                \<and> SourceFile other \<noteq> SourceFile doc) docs"

text \<open>
  Modelled from the spec: the effective identity of a document within its set (package
  \<open>diff\<close> is not among the sources): the raw identity, augmented to
  \<open><id> (from <sourceFile>)\<close> for a colliding document.
\<close>

definition identity :: "string \<Rightarrow> Document list \<Rightarrow> Document \<Rightarrow> string" where
  "identity keyPath docs doc =
     (if collides keyPath docs doc
      then resolve doc keyPath @ '' (from '' @ SourceFile doc @ '')''
      else resolve doc keyPath)"

text \<open>
  Modelled from the spec: the mapping from identities to the documents of one set
  (\<open>diff.Engine.makeDocMap\<close>, not among the sources). The documents are entered in their
  order, a later one overwriting an earlier one with the same identity.
\<close>

definition makeDocMap :: "string \<Rightarrow> Document list \<Rightarrow> (string, Document) fmap" where
  "makeDocMap keyPath docs = fold (\<lambda>doc m. fmupd (identity keyPath docs doc) doc m) docs fmempty"

text \<open>
  Modelled from the spec: the differences of the two documents of an identity that both
  mappings have, and none for an identity that one of them lacks (step 5 of the Diff
  Engine; package \<open>diff\<close> is not among the sources).
\<close>

definition contentDiff ::
  "(string, Document) fmap \<Rightarrow> (string, Document) fmap \<Rightarrow> string \<Rightarrow> Difference list" where
  "contentDiff oldMap newMap k =
     (case fmlookup oldMap k of
        None \<Rightarrow> []
      | Some old \<Rightarrow>
          (case fmlookup newMap k of
             None \<Rightarrow> []
           | Some new \<Rightarrow> CompareValues (Mapping (Content old)) (Mapping (Content new)) []))"

text \<open>
  Modelled from the spec: \<open>compare(oldDocs, newDocs)\<close> of the Diff Engine
  (\<open>diff.Engine.Compare\<close>, not among the sources), for the engine made by \<open>NewEngine\<close> with
  the key path. Added are the identities of the new mapping that the old one lacks, deleted
  those of the old mapping that the new one lacks, modified those of both whose contents
  differ, each with its differences.
\<close>

definition Compare :: "string \<Rightarrow> Document list \<Rightarrow> Document list \<Rightarrow> Result" where
  "Compare keyPath oldDocs newDocs =
     (let oldMap = makeDocMap keyPath oldDocs;
          newMap = makeDocMap keyPath newDocs
      in \<lparr>Result.Added = fmfilter (\<lambda>k. k |\<notin>| fmdom oldMap) newMap,
          Result.Deleted = fmfilter (\<lambda>k. k |\<notin>| fmdom newMap) oldMap,
          Result.Modified =
            fmmap_keys (\<lambda>k new. contentDiff oldMap newMap k)
              (fmfilter (\<lambda>k. k |\<in>| fmdom oldMap \<and> contentDiff oldMap newMap k \<noteq> []) newMap)\<rparr>)"

text \<open>
  Modelled from the spec: \<open>Result.HasDifferences\<close> (not among the sources): the Result
  denotes differences when one of its three mappings is nonempty.
\<close>

definition HasDifferences :: "Result \<Rightarrow> bool" where
  "HasDifferences result =
     (len (Result.Added result) > 0 \<or> len (Result.Deleted result) > 0
      \<or> len (Result.Modified result) > 0)"

section \<open>Package config: the labels\<close>

text \<open>
  Modelled from the spec: the four label policies of the reporting collaborator (package
  \<open>config\<close> is not among the sources).
\<close>

datatype label_policy = HasAdditions | HasDeletions | HasModifications | NoChanges

text \<open>
  Modelled from the spec: the policies that apply to three counts (package \<open>config\<close> is not
  among the sources). The three change policies apply cumulatively, each under its own
  predicate on a count; the policy for no changes applies alone when the three counts are
  zero.
\<close>

definition labelPolicies :: "nat \<Rightarrow> nat \<Rightarrow> nat \<Rightarrow> label_policy list" where
  "labelPolicies added deleted modified =
     (if added = 0 \<and> deleted = 0 \<and> modified = 0 then [NoChanges]
      else (if added > 0 then [HasAdditions] else [])
         @ (if deleted > 0 then [HasDeletions] else [])
         @ (if modified > 0 then [HasModifications] else []))"

text \<open>
  Modelled from the spec: the label that the comparison section configures for a policy
  (package \<open>config\<close> is not among the sources).
\<close>

definition labelOf :: "CompareConfig \<Rightarrow> label_policy \<Rightarrow> string" where
  "labelOf cfg p =
     (case p of
        HasAdditions \<Rightarrow> WhenHasAdditions cfg
      | HasDeletions \<Rightarrow> WhenHasDeletions cfg
      | HasModifications \<Rightarrow> WhenHasModifications cfg
      | NoChanges \<Rightarrow> WhenNoChanges cfg)"

text \<open>
  Modelled from the spec: \<open>GetLabels\<close> of the comparison section (package \<open>config\<close> is not
  among the sources): the labels of the policies that apply to the three counts.
\<close>

definition GetLabels :: "CompareConfig \<Rightarrow> nat \<Rightarrow> nat \<Rightarrow> nat \<Rightarrow> string list" where
  "GetLabels cfg added deleted modified = map (labelOf cfg) (labelPolicies added deleted modified)"

section \<open>Package github\<close>

text \<open>
  Each function that may call the GitHub API returns the requests it sent together with its
  error (\<open>None\<close> for \<open>nil\<close>). What the functions print to the standard error stream is left
  out. \<open>getClient\<close> reads the token from the environment and builds the client without any
  request.
\<close>

definition getClient :: "world \<Rightarrow> error + unit" where
  "getClient w =
     (if GITHUB_TOKEN w = [] then Inl (Failure ''GITHUB_TOKEN environment variable is not set'')
      else Inr ())"

definition parseRepo :: "string \<Rightarrow> error + (string \<times> string)" where
  "parseRepo repo =
     (let parts = Split repo CHR ''/'' in
      if length parts \<noteq> 2 then Inl (InvalidRepositoryFormat repo)
      else Inr (parts ! 0, parts ! 1))"

definition PostComment :: "world \<Rightarrow> string \<Rightarrow> int \<Rightarrow> string \<Rightarrow> request list \<times> error option" where
  "PostComment w repo prNumber body =
     (case getClient w of
        Inl err \<Rightarrow> ([], Some (Wrap ''failed to create GitHub client'' err))
      | Inr client \<Rightarrow>
          (case parseRepo repo of
             Inl err \<Rightarrow> ([], Some err)
           | Inr (owner, repoName) \<Rightarrow>
               (case CreateComment w owner repoName prNumber body of
                  Some err \<Rightarrow> ([CommentRequest owner repoName prNumber body],
                               Some (Wrap ''failed to post comment'' err))
                | None \<Rightarrow> ([CommentRequest owner repoName prNumber body], None))))"

definition AddLabel :: "world \<Rightarrow> string \<Rightarrow> int \<Rightarrow> string \<Rightarrow> request list \<times> error option" where
  "AddLabel w repo prNumber label =
     (if label = [] then ([], None)
      else
        (case getClient w of
           Inl err \<Rightarrow> ([], Some (Wrap ''failed to create GitHub client'' err))
         | Inr client \<Rightarrow>
             (case parseRepo repo of
                Inl err \<Rightarrow> ([], Some err)
              | Inr (owner, repoName) \<Rightarrow>
                  (case AddLabelsToIssue w owner repoName prNumber [label] of
                     Some err \<Rightarrow> ([LabelsRequest owner repoName prNumber [label]],
                                  Some (Wrap ''failed to add label'' err))
                   | None \<Rightarrow> ([LabelsRequest owner repoName prNumber [label]], None)))))"

definition AddLabels :: "world \<Rightarrow> string \<Rightarrow> int \<Rightarrow> string list \<Rightarrow> request list \<times> error option" where
  "AddLabels w repo prNumber labels =
     (if length labels = 0 then ([], None)
      else
        (let validLabels = filter (\<lambda>label. label \<noteq> []) labels in
         if length validLabels = 0 then ([], None)
         else
           (case getClient w of
              Inl err \<Rightarrow> ([], Some (Wrap ''failed to create GitHub client'' err))
            | Inr client \<Rightarrow>
                (case parseRepo repo of
                   Inl err \<Rightarrow> ([], Some err)
                 | Inr (owner, repoName) \<Rightarrow>
                     (case AddLabelsToIssue w owner repoName prNumber validLabels of
                        Some err \<Rightarrow> ([LabelsRequest owner repoName prNumber validLabels],
                                     Some (Wrap ''failed to add labels'' err))
                      | None \<Rightarrow> ([LabelsRequest owner repoName prNumber validLabels], None))))))"

definition RenderTemplate :: "world \<Rightarrow> string \<Rightarrow> TemplateData \<Rightarrow> error + string" where
  "RenderTemplate w tmplStr data =
     (case templateParse w tmplStr of
        Some err \<Rightarrow> Inl (Wrap ''failed to parse template'' err)
      | None \<Rightarrow>
          (case templateExecute w tmplStr data of
             Inl err \<Rightarrow> Inl (Wrap ''failed to execute template'' err)
           | Inr text \<Rightarrow> Inr text))"

text \<open>
  \<open>range\<close> over a Go map visits every key once, in an order that the language leaves open.
  \<open>rangeOrder m ks\<close> says that \<open>ks\<close> is such an order for the map \<open>m\<close>.
\<close>

definition rangeOrder :: "('k, 'v) fmap \<Rightarrow> 'k list \<Rightarrow> bool" where
  "rangeOrder m ks = (distinct ks \<and> fset_of_list ks = fmdom m)"

text \<open>
  \<open>PrepareTemplateData\<close>. Its first three arguments are the orders in which the three
  \<open>range\<close> statements visit the keys of \<open>result.Added\<close>, \<open>result.Deleted\<close> and \<open>result.Modified\<close>;
  each loop appends the keys in that order and \<open>sort.Strings\<close> sorts the slice.
\<close>

definition PrepareTemplateData ::
  "string list \<Rightarrow> string list \<Rightarrow> string list \<Rightarrow> Result \<Rightarrow> string \<Rightarrow> string
    \<Rightarrow> (string, string) fmap \<Rightarrow> TemplateData" where
  "PrepareTemplateData addedKeys deletedKeys modifiedKeys result details link vars =
     (let added = len (Result.Added result);
          deleted = len (Result.Deleted result);
          modified = len (Result.Modified result);
          summary = ''Plan: '' @ fmtInt (int added) @ '' to add, '' @ fmtInt (int deleted)
                      @ '' to delete, '' @ fmtInt (int modified) @ '' to modify'';
          addedList = sort addedKeys;
          deletedList = sort deletedKeys;
          modifiedList = sort modifiedKeys
      in \<lparr>Summary = summary,
          Details = details,
          HasChanges = HasDifferences result,
          TemplateData.Added = added,
          TemplateData.Deleted = deleted,
          TemplateData.Modified = modified,
          AddedList = addedList,
          DeletedList = deletedList,
          ModifiedList = modifiedList,
          TemplateData.Link = link,
          Vars = vars\<rparr>)"

section \<open>Package main: the compare command\<close>

text \<open>
  The comment step of \<open>handleConfigBasedIntegration\<close>: when a comment is asked for, not
  disabled, and a template is configured, the template data is prepared and rendered and the
  comment is posted. The three \<open>range\<close> orders handed to \<open>PrepareTemplateData\<close> are the
  sorted keys; any other order gives the same template data (\<open>PrepareTemplateData_any_order\<close>
  below).
\<close>

definition postConfiguredComment ::
  "world \<Rightarrow> CompareCmd \<Rightarrow> CompareConfig \<Rightarrow> string \<Rightarrow> Result \<Rightarrow> string
    \<Rightarrow> request list \<times> error option" where
  "postConfiguredComment w c compareConfig repo result details =
     (if CompareCmd.PostComment c \<and> \<not> DisableComment compareConfig \<and> Template compareConfig \<noteq> []
      then
        (let vars = Var c;
             templateData = PrepareTemplateData
               (sorted_list_of_fset (fmdom (Result.Added result)))
               (sorted_list_of_fset (fmdom (Result.Deleted result)))
               (sorted_list_of_fset (fmdom (Result.Modified result)))
               result details (CompareCmd.Link c) vars
         in case RenderTemplate w (Template compareConfig) templateData of
              Inl err \<Rightarrow> ([], Some (Wrap ''error rendering template'' err))
            | Inr commentBody \<Rightarrow>
                (case PostComment w repo (GithubPR c) commentBody of
                   (reqs, Some err) \<Rightarrow> (reqs, Some (Wrap ''error posting comment'' err))
                 | (reqs, None) \<Rightarrow> (reqs, None)))
      else ([], None))"

text \<open>
  The label step of \<open>handleConfigBasedIntegration\<close>: unless labels are disabled, the labels
  of the three counts are computed and, when there is one, added.
\<close>

definition addConfiguredLabels ::
  "world \<Rightarrow> CompareCmd \<Rightarrow> CompareConfig \<Rightarrow> string \<Rightarrow> Result \<Rightarrow> request list \<times> error option" where
  "addConfiguredLabels w c compareConfig repo result =
     (if \<not> DisableLabel compareConfig
      then
        (let labels = GetLabels compareConfig (len (Result.Added result))
                        (len (Result.Deleted result)) (len (Result.Modified result))
         in if length labels > 0
            then (case AddLabels w repo (GithubPR c) labels of
                    (reqs, Some err) \<Rightarrow> (reqs, Some (Wrap ''error adding labels'' err))
                  | (reqs, None) \<Rightarrow> (reqs, None))
            else ([], None))
      else ([], None))"

text \<open>
  \<open>handleConfigBasedIntegration\<close>: the configuration is loaded, the repository, the number
  of the pull request and the token are checked, and the two steps follow; the error of the
  comment step ends the function before the label step.
\<close>

definition handleConfigBasedIntegration ::
  "world \<Rightarrow> CompareCmd \<Rightarrow> Result \<Rightarrow> string \<Rightarrow> request list \<times> error option" where
  "handleConfigBasedIntegration w c result details =
     (case LoadConfig w (CompareCmd.Config c) of
        Inl err \<Rightarrow> ([], Some (Wrap ''error loading config'' err))
      | Inr cfg \<Rightarrow>
          (let repo = (if GithubRepo c \<noteq> [] then GithubRepo c else RepoFullName cfg);
               prNumber = GithubPR c;
               token = (if GithubToken c = [] then GITHUB_TOKEN w else GithubToken c);
               compareConfig = Compare_section cfg
           in if repo = []
                then ([], Some (Failure ''repository not specified in config or --github-repo''))
              else if prNumber = 0
                then ([], Some (Failure ''PR number not specified (use --github-pr)''))
              else if token = []
                then ([], Some (Failure
                  ''GitHub token not provided (use --github-token or GITHUB_TOKEN env var)''))
              else
                (case postConfiguredComment w c compareConfig repo result details of
                   (reqs, Some err) \<Rightarrow> (reqs, Some err)
                 | (reqs, None) \<Rightarrow>
                     (case addConfiguredLabels w c compareConfig repo result of
                        (reqs', err) \<Rightarrow> (reqs @ reqs', err)))))"

text \<open>\<open>applyGithubLabel\<close>, the labelling by the two label flags of the command line.\<close>

definition applyGithubLabel :: "world \<Rightarrow> CompareCmd \<Rightarrow> Result \<Rightarrow> request list \<times> error option" where
  "applyGithubLabel w c result =
     (let token = (if GithubToken c = [] then GITHUB_TOKEN w else GithubToken c);
          label = (if HasDifferences result then ChangesLabel c else NoChangesLabel c)
      in if GithubRepo c = []
           then ([], Some (Failure ''--github-repo is required when using --github-label''))
         else if GithubPR c = 0
           then ([], Some (Failure ''--github-pr is required when using --github-label''))
         else if token = []
           then ([], Some (Failure
             ''GitHub token not provided (use --github-token or GITHUB_TOKEN env var)''))
         else AddLabel w (GithubRepo c) (GithubPR c) label)"

text \<open>
  The first half of \<open>CompareCmd.Run\<close>: the two document sets, from git or from the two
  files, or the error that \<open>Run\<close> returns.
\<close>

definition loadDocuments :: "world \<Rightarrow> CompareCmd \<Rightarrow> error + (Document list \<times> Document list)" where
  "loadDocuments w c =
     (if GitCompare c \<noteq> []
      then
        (case (if File1 c = []
               then (case GetChangedYAMLFiles w (GitCompare c) of
                       Inl err \<Rightarrow> Inl (Wrap ''error getting changed files'' err)
                     | Inr files \<Rightarrow> Inr files)
               else Inr [File1 c]) of
           Inl err \<Rightarrow> Inl err
         | Inr targetFiles \<Rightarrow>
             (case ParseFilesWithSourceTracking w (GitCompare c) targetFiles of
                Inl err \<Rightarrow> Inl (Wrap ''error parsing files'' err)
              | Inr docs \<Rightarrow> Inr docs))
      else if File1 c = [] \<or> File2 c = []
        then Inl (Failure ''two files are required (or use --git-compare)'')
      else
        (case ParseMultiDocYAML w (File1 c) of
           Inl err \<Rightarrow> Inl (Wrap (''error parsing '' @ File1 c) err)
         | Inr docs1 \<Rightarrow>
             (case ParseMultiDocYAML w (File2 c) of
                Inl err \<Rightarrow> Inl (Wrap (''error parsing '' @ File2 c) err)
              | Inr docs2 \<Rightarrow> Inr (docs1, docs2))))"

text \<open>
  How \<open>Run\<close> ends: it returns an error, it returns \<open>nil\<close>, or it ends the process with
  \<open>os.Exit\<close>.
\<close>

datatype outcome = ReturnedError error | ReturnedNil | Exited int

text \<open>
  The second half of \<open>Run\<close>, from the comparison on. What \<open>Run\<close> prints to the standard
  output is left out, but for the verbose text that it captures for the comment. \<open>Run\<close>
  captures that text through a pipe which it reads only after the text is written; the
  model is of the runs that get past the capture.
\<close>

definition integrate :: "world \<Rightarrow> CompareCmd \<Rightarrow> Result \<Rightarrow> request list \<times> error option" where
  "integrate w c result =
     (let details = (if Verbose c then PrintVerbose w result else [])
      in if CompareCmd.Config c \<noteq> [] then handleConfigBasedIntegration w c result details
         else if GithubLabel c
           then (case applyGithubLabel w c result of
                   (reqs, Some err) \<Rightarrow> (reqs, Some (Wrap ''error applying GitHub label'' err))
                 | (reqs, None) \<Rightarrow> (reqs, None))
         else ([], None))"

text \<open>
  \<open>CompareCmd.Run\<close>: an error of either half is returned; otherwise the process exits with
  status 1 when the Result has differences, and \<open>Run\<close> returns \<open>nil\<close> when it has none.
\<close>

definition Run :: "world \<Rightarrow> CompareCmd \<Rightarrow> request list \<times> outcome" where
  "Run w c =
     (case loadDocuments w c of
        Inl err \<Rightarrow> ([], ReturnedError err)
      | Inr (docs1, docs2) \<Rightarrow>
          (let result = Compare (Key c) docs1 docs2
           in case integrate w c result of
                (reqs, Some err) \<Rightarrow> (reqs, ReturnedError err)
              | (reqs, None) \<Rightarrow>
                  (if HasDifferences result then (reqs, Exited 1) else (reqs, ReturnedNil))))"

text \<open>
  The exit status of the process: \<open>main\<close> hands the error of \<open>Run\<close> to \<open>FatalIfErrorf\<close>,
  which exits with status 1 on an error and does nothing on \<open>nil\<close>, after which \<open>main\<close>
  returns and the status is 0.
\<close>

definition exitStatus :: "world \<Rightarrow> CompareCmd \<Rightarrow> int" where
  "exitStatus w c =
     (case snd (Run w c) of
        ReturnedError err \<Rightarrow> 1
      | ReturnedNil \<Rightarrow> 0
      | Exited code \<Rightarrow> code)"

section \<open>Reading a decimal numeral\<close>

text \<open>
  The number that a string of decimal digits denotes; it states what the text of \<open>%d\<close>
  means.
\<close>

definition decimalValue :: "string \<Rightarrow> nat" where
  "decimalValue s = foldl (\<lambda>acc c. 10 * acc + (of_char c - 48)) 0 s"

section \<open>Example inputs\<close>

text \<open>Two documents, named \<open>a\<close> and \<open>b\<close> under \<open>metadata.name\<close>, and a changed \<open>a\<close>.\<close>

definition contentA :: content where
  "contentA = [(''metadata'', Mapping [(''name'', Scalar (SStr ''a''))]), (''value'', Scalar (SNum 1))]"

definition contentB :: content where
  "contentB = [(''metadata'', Mapping [(''name'', Scalar (SStr ''b''))])]"

definition docA :: Document where
  "docA = \<lparr>Content = contentA, Raw = ''metadata:\<newline>  name: a\<newline>value: 1\<newline>'', SourceFile = []\<rparr>"

definition docA2 :: Document where
  "docA2 = \<lparr>Content = [(''metadata'', Mapping [(''name'', Scalar (SStr ''a''))]),
                        (''value'', Scalar (SNum 2))],
            Raw = ''metadata:\<newline>  name: a\<newline>value: 2\<newline>'', SourceFile = []\<rparr>"

definition docB :: Document where
  "docB = \<lparr>Content = contentB, Raw = ''metadata:\<newline>  name: b\<newline>'', SourceFile = []\<rparr>"

text \<open>
  A world in which no file exists on the branch (every \<open>git show\<close> fails). The working
  tree has \<open>a.yaml\<close>, with a leading comment and the document \<open>b\<close>, and \<open>bad.yaml\<close>, which
  the YAML decoder rejects; no other file can be read. \<open>old.yaml\<close> parses to no document
  and \<open>new.yaml\<close> to the document \<open>b\<close>. The token is set and the GitHub API accepts every
  request.
\<close>

definition exampleWorld :: world where
  "exampleWorld =
     \<lparr>gitDiffNameOnly = (\<lambda>branch. Inr ''a.yaml\<newline>''),
      gitShow = (\<lambda>branch file. Inl (Failure ''exit status 128'')),
      fileExists = (\<lambda>file. True),
      readFile = (\<lambda>file.
        if file = ''a.yaml'' then Inr ''# new file\<newline>metadata:\<newline>  name: b\<newline>''
        else if file = ''bad.yaml'' then Inr ''metadata: [''
        else Inl (Failure ''no such file or directory'')),
      yamlDecode = (\<lambda>bytes.
        if bytes = ''metadata:\<newline>  name: b\<newline>'' then Inr [contentB]
        else if bytes = [] then Inr []
        else Inl (Failure ''yaml: did not find expected node content'')),
      yamlMarshal = (\<lambda>doc. if doc = contentB then ''metadata:\<newline>  name: b\<newline>'' else []),
      ParseMultiDocYAML = (\<lambda>file.
        if file = ''old.yaml'' then Inr []
        else if file = ''new.yaml'' then Inr [docB]
        else Inl (Failure ''no such file or directory'')),
      LoadConfig = (\<lambda>file. Inl (Failure ''no such file or directory'')),
      GITHUB_TOKEN = ''token'',
      templateParse = (\<lambda>tmpl. None),
      templateExecute = (\<lambda>tmpl data. Inr (Summary data)),
      CreateComment = (\<lambda>owner repo pr body. None),
      AddLabelsToIssue = (\<lambda>owner repo pr labels. None),
      PrintVerbose = (\<lambda>result. [])\<rparr>"

text \<open>The same world without the token.\<close>

definition noTokenWorld :: world where
  "noTokenWorld = exampleWorld\<lparr>GITHUB_TOKEN := []\<rparr>"

text \<open>The command \<open>yamlcmt old.yaml new.yaml\<close>, and the command \<open>yamlcmt old.yaml old.yaml\<close>.\<close>

definition exampleCmd :: CompareCmd where
  "exampleCmd =
     \<lparr>File1 = ''old.yaml'', File2 = ''new.yaml'', Key = ''metadata.name'',
      ShowCounts = False, Verbose = False, NoColor = False, GitCompare = [],
      GithubLabel = False, GithubRepo = [], GithubPR = 0, GithubToken = [],
      ChangesLabel = ''config-sync/changes'', NoChangesLabel = ''config-sync/no-changes'',
      Config = [], PostComment = False, Link = [], Var = fmempty\<rparr>"

definition sameFileCmd :: CompareCmd where
  "sameFileCmd = exampleCmd\<lparr>File2 := ''old.yaml''\<rparr>"

text \<open>A Result with two added identities and one deleted identity.\<close>

definition exampleResult :: Result where
  "exampleResult =
     \<lparr>Result.Added = fmupd ''b'' docB (fmupd ''a'' docA fmempty),
      Result.Deleted = fmupd ''c'' docA2 fmempty,
      Result.Modified = fmempty\<rparr>"

text \<open>The comparison section of the configuration file of the installation guide.\<close>

definition exampleConfig :: CompareConfig where
  "exampleConfig =
     \<lparr>Template = ''## YAML Diff Result'',
      WhenHasAdditions = ''config-sync/add'',
      WhenHasDeletions = ''config-sync/destroy'',
      WhenHasModifications = ''config-sync/changes'',
      WhenNoChanges = ''config-sync/no-changes'',
      DisableComment = False,
      DisableLabel = False\<rparr>"

text \<open>
  A configuration file with that section for the repository \<open>owner/repo\<close>, a world in which
  it loads, and the command \<open>yamlcmt old.yaml new.yaml --config=yamlcmt.yaml --github-pr=7\<close>.
\<close>

definition exampleConf :: Config where
  "exampleConf = \<lparr>RepoFullName = ''owner/repo'', Compare_section = exampleConfig\<rparr>"

definition configWorld :: world where
  "configWorld = exampleWorld\<lparr>LoadConfig := (\<lambda>file. Inr exampleConf)\<rparr>"

definition configCmd :: CompareCmd where
  "configCmd = exampleCmd\<lparr>CompareCmd.Config := ''yamlcmt.yaml'', GithubPR := 7\<rparr>"

section \<open>Facts about the byte-string functions\<close>

lemma Split_not_Nil: "Split s sep \<noteq> []"
  by (induction s) (auto split: list.splits)

lemma Join_Split: "Join (Split s sep) sep = s"
proof (induction s)
  case Nil
  show ?case by simp
next
  case (Cons c cs)
  obtain piece pieces where sp: "Split cs sep = piece # pieces"
    using Split_not_Nil [of cs sep] by (cases "Split cs sep") auto
  show ?case
  proof (cases "c = sep")
    case True
    with Cons sp show ?thesis by simp
  next
    case False
    with Cons sp show ?thesis by (cases pieces) auto
  qed
qed

lemma length_Split: "length (Split s sep) = Suc (count_list s sep)"
proof (induction s)
  case Nil
  show ?case by simp
next
  case (Cons c cs)
  obtain piece pieces where "Split cs sep = piece # pieces"
    using Split_not_Nil [of cs sep] by (cases "Split cs sep") auto
  with Cons show ?case by auto
qed

lemma decimalValue_snoc: "decimalValue (s @ [c]) = 10 * decimalValue s + (of_char c - 48)"
  by (simp add: decimalValue_def)

lemma digitChar_value: "d < 10 \<Longrightarrow> of_char (digitChar d) - 48 = d"
  by (simp add: digitChar_def)

lemma decimalValue_fmtNat: "decimalValue (fmtNat n) = n"
proof (induction n rule: fmtNat.induct)
  case (1 n)
  show ?case
  proof (cases "n < 10")
    case True
    then have "fmtNat n = [digitChar n]"
      by (simp add: fmtNat.simps)
    with True show ?thesis
      using decimalValue_snoc [of "[]" "digitChar n"]
      by (simp add: digitChar_value decimalValue_def)
  next
    case False
    then have "fmtNat n = fmtNat (n div 10) @ [digitChar (n mod 10)]"
      by (subst fmtNat.simps) simp
    with False "1.IH" show ?thesis
      by (simp add: decimalValue_snoc digitChar_value)
  qed
qed

lemma decimalValue_fmtInt: "decimalValue (fmtInt (int n)) = n"
  by (simp add: fmtInt_def decimalValue_fmtNat)

lemma fmtInt_0: "fmtInt 0 = ''0''"
  by code_simp

lemma fmtInt_1: "fmtInt 1 = ''1''"
  by code_simp

section \<open>Facts about cleanYAMLContent\<close>

lemma cleanLoop_not_skipping: "cleanLoop lines False result = result @ lines"
  by (induction lines arbitrary: result) (simp_all add: Let_def)

lemma cleanLoop_skipping:
  "cleanLoop lines True result = result @ dropWhile leadingLine lines"
proof (induction lines arbitrary: result)
  case Nil
  show ?case by simp
next
  case (Cons line lines)
  show ?case
  proof (cases "leadingLine line")
    case True
    then show ?thesis
      using Cons.IH [of result] by (auto simp: leadingLine_def Let_def)
  next
    case False
    then show ?thesis
      by (simp add: leadingLine_def Let_def cleanLoop_not_skipping)
  qed
qed

lemma cleanYAMLContent_dropWhile:
  "cleanYAMLContent content = Join (dropWhile leadingLine (Split content newline)) newline"
proof (cases "dropWhile leadingLine (Split content newline) = []")
  case True
  then show ?thesis
    by (simp add: cleanYAMLContent_def cleanLoop_skipping Let_def del: dropWhile_eq_Nil_conv)
next
  case False
  then show ?thesis
    by (simp add: cleanYAMLContent_def cleanLoop_skipping Let_def del: dropWhile_eq_Nil_conv)
qed

section \<open>Facts about ParseFilesWithSourceTracking\<close>

lemma decodeDocuments_source:
  "decodeDocuments w cleaned file = Inr docs \<Longrightarrow> d \<in> set docs \<Longrightarrow> SourceFile d = file"
  by (auto simp: decodeDocuments_def split: sum.splits)

text \<open>
  Every old-side document of a successful run was there before the loop or carries a file
  whose \<open>git show\<close> succeeded.
\<close>

lemma parseFilesLoop_old_sources:
  "parseFilesLoop w branch files oldDocs newDocs = Inr (oldDocs', newDocs') \<Longrightarrow>
   d \<in> set oldDocs' \<Longrightarrow>
   d \<in> set oldDocs \<or> (\<exists>output. gitShow w branch (SourceFile d) = Inr output)"
proof (induction files arbitrary: oldDocs newDocs)
  case Nil
  then show ?case by simp
next
  case (Cons f fs)
  from Cons.prems(1) obtain old1 content docs where
    old1: "(case gitShow w branch f of
              Inr output \<Rightarrow>
                (case decodeDocuments w (cleanYAMLContent output) f of
                   Inl err \<Rightarrow> Inl (Wrap (''failed to parse old version of '' @ f) err)
                 | Inr docs \<Rightarrow> Inr (oldDocs @ docs))
            | Inl gitErr \<Rightarrow> Inr oldDocs) = Inr old1"
    and rest: "parseFilesLoop w branch fs old1 (newDocs @ docs) = Inr (oldDocs', newDocs')"
    by (auto split: sum.splits)
  from Cons.IH [OF rest Cons.prems(2)]
  have "d \<in> set old1 \<or> (\<exists>output. gitShow w branch (SourceFile d) = Inr output)" .
  moreover have "d \<in> set old1 \<Longrightarrow>
    d \<in> set oldDocs \<or> (\<exists>output. gitShow w branch (SourceFile d) = Inr output)"
    using old1 by (auto split: sum.splits dest: decodeDocuments_source)
  ultimately show ?case by blast
qed

lemma parseFilesLoop_new_mono:
  "parseFilesLoop w branch files oldDocs newDocs = Inr (oldDocs', newDocs') \<Longrightarrow>
   set newDocs \<subseteq> set newDocs'"
proof (induction files arbitrary: oldDocs newDocs)
  case Nil
  then show ?case by simp
next
  case (Cons f fs)
  from Cons.prems obtain old1 docs where
    rest: "parseFilesLoop w branch fs old1 (newDocs @ docs) = Inr (oldDocs', newDocs')"
    by (auto split: sum.splits)
  from Cons.IH [OF rest] show ?case by simp
qed

text \<open>A successful run has read and decoded the current version of each of its files.\<close>

lemma parseFilesLoop_current_read:
  "parseFilesLoop w branch files oldDocs newDocs = Inr (oldDocs', newDocs') \<Longrightarrow>
   file \<in> set files \<Longrightarrow>
   \<exists>content docs. readFile w file = Inr content
      \<and> decodeDocuments w (cleanYAMLContent content) file = Inr docs"
proof (induction files arbitrary: oldDocs newDocs)
  case Nil
  then show ?case by simp
next
  case (Cons f fs)
  from Cons.prems(1) obtain old1 content1 docs1 where
    rd: "readFile w f = Inr content1"
    and dc: "decodeDocuments w (cleanYAMLContent content1) f = Inr docs1"
    and rest: "parseFilesLoop w branch fs old1 (newDocs @ docs1) = Inr (oldDocs', newDocs')"
    by (auto split: sum.splits)
  show ?case
  proof (cases "file = f")
    case True
    with rd dc show ?thesis by blast
  next
    case False
    with Cons.prems have "file \<in> set fs" by simp
    from Cons.IH [OF rest this] show ?thesis .
  qed
qed

lemma parseFilesLoop_new_docs:
  "parseFilesLoop w branch files oldDocs newDocs = Inr (oldDocs', newDocs') \<Longrightarrow>
   file \<in> set files \<Longrightarrow> readFile w file = Inr content \<Longrightarrow>
   decodeDocuments w (cleanYAMLContent content) file = Inr docs \<Longrightarrow>
   set docs \<subseteq> set newDocs'"
proof (induction files arbitrary: oldDocs newDocs)
  case Nil
  then show ?case by simp
next
  case (Cons f fs)
  from Cons.prems(1) obtain old1 content1 docs1 where
    rd: "readFile w f = Inr content1"
    and dc: "decodeDocuments w (cleanYAMLContent content1) f = Inr docs1"
    and rest: "parseFilesLoop w branch fs old1 (newDocs @ docs1) = Inr (oldDocs', newDocs')"
    by (auto split: sum.splits)
  show ?case
  proof (cases "file = f")
    case True
    with rd dc Cons.prems have "docs1 = docs" by simp
    with parseFilesLoop_new_mono [OF rest] show ?thesis by simp
  next
    case False
    with Cons.prems have "file \<in> set fs" by simp
    from Cons.IH [OF rest this Cons.prems(3) Cons.prems(4)] show ?thesis .
  qed
qed

section \<open>Facts about the value comparator and the engine\<close>

lemma CompareValues_same: "CompareValues v v path = []"
proof (induction v arbitrary: path)
  case (Scalar s)
  show ?case by simp
next
  case (Sequence xs)
  have "CompareValues (xs ! i) (xs ! i) (path @ [PIndex i]) = []" if "i < length xs" for i
    using that Sequence.IH [of "xs ! i"] by simp
  then show ?case by simp
next
  case (Mapping m)
  have "(case map_of m k of
          None \<Rightarrow> (case map_of m k of
                     None \<Rightarrow> []
                   | Some b \<Rightarrow> [difference (path @ [PKey k]) KeyAdded None (Some b)])
        | Some a \<Rightarrow> (case map_of m k of
                       None \<Rightarrow> [difference (path @ [PKey k]) KeyRemoved (Some a) None]
                     | Some b \<Rightarrow> CompareValues a b (path @ [PKey k]))) = []" for k
  proof (cases "map_of m k")
    case None
    then show ?thesis by simp
  next
    case (Some a)
    then have "(k, a) \<in> set m"
      by (rule map_of_SomeD)
    then have "CompareValues a a (path @ [PKey k]) = []"
      using Mapping.IH [of "(k, a)" a] by simp
    with Some show ?thesis by simp
  qed
  then show ?case by simp
qed

lemma contentDiff_same: "contentDiff m m k = []"
  by (simp add: contentDiff_def CompareValues_same split: option.splits)

lemma fmdom_fold_fmupd:
  "fmdom (fold (\<lambda>doc m. fmupd (f doc) doc m) docs m0) = fmdom m0 |\<union>| fset_of_list (map f docs)"
  by (induction docs arbitrary: m0) auto

text \<open>The identities observed in a document set are the keys of its mapping.\<close>

lemma fmdom_makeDocMap:
  "fmdom (makeDocMap keyPath docs) = fset_of_list (map (identity keyPath docs) docs)"
  by (simp add: makeDocMap_def fmdom_fold_fmupd)

lemma Added_keys:
  "fmdom (Result.Added (Compare keyPath oldDocs newDocs))
     = fmdom (makeDocMap keyPath newDocs) |-| fmdom (makeDocMap keyPath oldDocs)"
  by (auto simp: Compare_def Let_def)

lemma Deleted_keys:
  "fmdom (Result.Deleted (Compare keyPath oldDocs newDocs))
     = fmdom (makeDocMap keyPath oldDocs) |-| fmdom (makeDocMap keyPath newDocs)"
  by (auto simp: Compare_def Let_def)

lemma Modified_keys:
  "fmdom (Result.Modified (Compare keyPath oldDocs newDocs))
     = ffilter (\<lambda>k. contentDiff (makeDocMap keyPath oldDocs) (makeDocMap keyPath newDocs) k \<noteq> [])
         (fmdom (makeDocMap keyPath oldDocs) |\<inter>| fmdom (makeDocMap keyPath newDocs))"
  by (auto simp: Compare_def Let_def)

lemma fmmap_keys_empty: "fmmap_keys f fmempty = fmempty"
  by (rule fmap_ext) simp

lemma Compare_one_new:
  "Compare keyPath [] [doc] =
     \<lparr>Result.Added = fmupd (resolve doc keyPath) doc fmempty,
      Result.Deleted = fmempty, Result.Modified = fmempty\<rparr>"
  by (simp add: Compare_def makeDocMap_def identity_def collides_def Let_def fmmap_keys_empty)

lemma Split_metadata_name: "Split ''metadata.name'' CHR ''.'' = [''metadata'', ''name'']"
  by code_simp

section \<open>Facts about Go maps\<close>

lemma len_zero_iff: "len m = 0 \<longleftrightarrow> m = fmempty"
proof
  assume "len m = 0"
  then have "fmdom m = {||}"
    by (simp add: len_def)
  then show "m = fmempty"
    by (intro fmap_ext) (simp add: fmdom_notD)
next
  assume "m = fmempty"
  then show "len m = 0"
    by (simp add: len_def)
qed

lemma len_empty: "len fmempty = 0"
  by (simp add: len_def)

lemma len_single: "len (fmupd k v fmempty) = 1"
  by (simp add: len_def fcard_finsert_if)

lemma HasDifferences_iff:
  "HasDifferences r \<longleftrightarrow>
     Result.Added r \<noteq> fmempty \<or> Result.Deleted r \<noteq> fmempty \<or> Result.Modified r \<noteq> fmempty"
  using len_zero_iff [of "Result.Added r"] len_zero_iff [of "Result.Deleted r"]
    len_zero_iff [of "Result.Modified r"]
  by (auto simp: HasDifferences_def)

text \<open>Sorting the keys in any order of \<open>range\<close> gives the sorted list of the key set.\<close>

lemma sort_rangeOrder:
  fixes m :: "('k::linorder, 'v) fmap"
  assumes "rangeOrder m ks"
  shows "sort ks = sorted_list_of_fset (fmdom m)"
proof -
  from assms have d: "distinct ks" and s: "fset_of_list ks = fmdom m"
    by (simp_all add: rangeOrder_def)
  from s have "fset (fmdom m) = set ks"
    by (metis fset_of_list.rep_eq)
  then have "sorted_list_of_fset (fmdom m) = sorted_list_of_set (set ks)"
    by (simp add: sorted_list_of_fset.rep_eq)
  also have "\<dots> = sort (remdups ks)"
    by (rule sorted_list_of_set_sort_remdups)
  also from d have "\<dots> = sort ks"
    by (simp add: distinct_remdups_id)
  finally show ?thesis by simp
qed

lemma length_rangeOrder:
  assumes "rangeOrder m ks"
  shows "length ks = len m"
proof -
  from assms have "fcard (fmdom m) = card (set ks)"
    by (metis rangeOrder_def fcard.rep_eq fset_of_list.rep_eq)
  with assms show ?thesis
    by (simp add: rangeOrder_def len_def distinct_card)
qed

lemma rangeOrder_sorted_keys: "rangeOrder m (sorted_list_of_fset (fmdom m))"
proof -
  have "distinct (sorted_list_of_fset (fmdom m))"
    by (simp add: sorted_list_of_fset.rep_eq)
  then show ?thesis
    by (simp add: rangeOrder_def)
qed

text \<open>The template data does not depend on the orders of the three \<open>range\<close> statements.\<close>

lemma PrepareTemplateData_any_order:
  assumes "rangeOrder (Result.Added r) addedKeys" "rangeOrder (Result.Added r) addedKeys'"
    and "rangeOrder (Result.Deleted r) deletedKeys" "rangeOrder (Result.Deleted r) deletedKeys'"
    and "rangeOrder (Result.Modified r) modifiedKeys" "rangeOrder (Result.Modified r) modifiedKeys'"
  shows "PrepareTemplateData addedKeys deletedKeys modifiedKeys r details link vars
    = PrepareTemplateData addedKeys' deletedKeys' modifiedKeys' r details link vars"
  using assms by (simp add: PrepareTemplateData_def Let_def sort_rangeOrder)

section \<open>Facts about the repository name\<close>

lemma parseRepo_error_iff:
  "parseRepo repo = Inl (InvalidRepositoryFormat repo) \<longleftrightarrow> count_list repo CHR ''/'' \<noteq> 1"
  by (simp add: parseRepo_def Let_def length_Split)

lemma parseRepo_ok:
  "count_list repo CHR ''/'' = 1 \<Longrightarrow> \<exists>owner name. parseRepo repo = Inr (owner, name)"
  by (simp add: parseRepo_def Let_def length_Split)

lemma parseRepo_bad:
  "count_list repo CHR ''/'' \<noteq> 1 \<Longrightarrow> parseRepo repo = Inl (InvalidRepositoryFormat repo)"
  by (simp add: parseRepo_def Let_def length_Split)

section \<open>Facts about the labels\<close>

lemma labelPolicies_props:
  "(HasAdditions \<in> set (labelPolicies a d m) \<longleftrightarrow> a > 0)
 \<and> (HasDeletions \<in> set (labelPolicies a d m) \<longleftrightarrow> d > 0)
 \<and> (HasModifications \<in> set (labelPolicies a d m) \<longleftrightarrow> m > 0)
 \<and> (NoChanges \<in> set (labelPolicies a d m) \<longleftrightarrow> a = 0 \<and> d = 0 \<and> m = 0)
 \<and> distinct (labelPolicies a d m)"
  by (auto simp: labelPolicies_def)

lemma GetLabels_not_Nil: "GetLabels cfg a d m \<noteq> []"
  by (auto simp: GetLabels_def labelPolicies_def)

text \<open>
  With the token set and a well-formed repository, \<open>AddLabels\<close> sends one request, with the
  nonempty labels, whatever the answer of the API is.
\<close>

lemma AddLabels_request:
  assumes "GITHUB_TOKEN w \<noteq> []" and "parseRepo repo = Inr (owner, name)"
    and "filter (\<lambda>label. label \<noteq> []) labels \<noteq> []"
  shows "fst (AddLabels w repo pr labels)
    = [LabelsRequest owner name pr (filter (\<lambda>label. label \<noteq> []) labels)]"
proof -
  from assms(3) have "labels \<noteq> []"
    by auto
  with assms show ?thesis
    by (cases "AddLabelsToIssue w owner name pr (filter (\<lambda>label. label \<noteq> []) labels)")
       (simp_all add: AddLabels_def getClient_def Let_def)
qed

section \<open>Claims\<close>

text \<open>
  C1. Every run of the compare command that does not end in an error has read its two
  document sets, and the process exits with status 1 (non-zero) when the Result computed
  from them has an added, deleted or modified identity, and with status 0 when its three
  mappings are empty.
\<close>

theorem exit_status_reports_differences:
  assumes "\<forall>err. snd (Run w c) \<noteq> ReturnedError err"
  shows "\<exists>docs1 docs2. loadDocuments w c = Inr (docs1, docs2)
     \<and> (Result.Added (Compare (Key c) docs1 docs2) \<noteq> fmempty
          \<or> Result.Deleted (Compare (Key c) docs1 docs2) \<noteq> fmempty
          \<or> Result.Modified (Compare (Key c) docs1 docs2) \<noteq> fmempty
        \<longrightarrow> exitStatus w c = 1)
     \<and> (Result.Added (Compare (Key c) docs1 docs2) = fmempty
          \<and> Result.Deleted (Compare (Key c) docs1 docs2) = fmempty
          \<and> Result.Modified (Compare (Key c) docs1 docs2) = fmempty
        \<longrightarrow> exitStatus w c = 0)"
proof (cases "loadDocuments w c")
  case (Inl err)
  then have "snd (Run w c) = ReturnedError err"
    by (simp add: Run_def)
  with assms show ?thesis by blast
next
  case (Inr docs)
  obtain docs1 docs2 where d: "docs = (docs1, docs2)"
    by (cases docs)
  obtain reqs err where i: "integrate w c (Compare (Key c) docs1 docs2) = (reqs, err)"
    by (cases "integrate w c (Compare (Key c) docs1 docs2)")
  have "err = None"
  proof (cases err)
    case None
    then show ?thesis .
  next
    case (Some e)
    with Inr d i have "snd (Run w c) = ReturnedError e"
      by (simp add: Run_def Let_def)
    with assms show ?thesis by blast
  qed
  with Inr d i have
    "exitStatus w c = (if HasDifferences (Compare (Key c) docs1 docs2) then 1 else 0)"
    by (simp add: Run_def exitStatus_def Let_def)
  with Inr d show ?thesis
    by (simp add: HasDifferences_iff)
qed

theorem exit_status_reports_differences_witness:
  "snd (Run exampleWorld exampleCmd) = Exited 1
   \<and> exitStatus exampleWorld exampleCmd = 1
   \<and> snd (Run exampleWorld sameFileCmd) = ReturnedNil
   \<and> exitStatus exampleWorld sameFileCmd = 0"
proof -
  have r1: "snd (Run exampleWorld exampleCmd) = Exited 1"
    by code_simp
  have r2: "snd (Run exampleWorld sameFileCmd) = ReturnedNil"
    by code_simp
  have l1: "loadDocuments exampleWorld exampleCmd = Inr ([], [docB])"
    by code_simp
  have l2: "loadDocuments exampleWorld sameFileCmd = Inr ([], [])"
    by code_simp
  have a1: "Result.Added (Compare (Key exampleCmd) [] [docB]) \<noteq> fmempty"
    by code_simp
  have a2: "Result.Added (Compare (Key sameFileCmd) [] []) = fmempty
    \<and> Result.Deleted (Compare (Key sameFileCmd) [] []) = fmempty
    \<and> Result.Modified (Compare (Key sameFileCmd) [] []) = fmempty"
    by code_simp
  from r1 have h1: "\<forall>err. snd (Run exampleWorld exampleCmd) \<noteq> ReturnedError err"
    by simp
  from r2 have h2: "\<forall>err. snd (Run exampleWorld sameFileCmd) \<noteq> ReturnedError err"
    by simp
  from exit_status_reports_differences [OF h1] l1 a1
  have e1: "exitStatus exampleWorld exampleCmd = 1"
    by auto
  from exit_status_reports_differences [OF h2] l2 a2
  have e2: "exitStatus exampleWorld sameFileCmd = 0"
    by auto
  from r1 r2 e1 e2 show ?thesis by simp
qed

text \<open>
  C2. For every pair of document sequences the key sets of \<open>added\<close>, \<open>deleted\<close> and
  \<open>modified\<close> of the Result are pairwise disjoint; their union is the set of the identities
  observed in either input that are missing from the old mapping, missing from the new
  mapping, or present in both with differing contents; and an identity present in both
  whose contents give no difference is in none of the three mappings.
\<close>

theorem result_key_sets_partition:
  "fmdom (Result.Added (Compare keyPath oldDocs newDocs))
      |\<inter>| fmdom (Result.Deleted (Compare keyPath oldDocs newDocs)) = {||}
   \<and> fmdom (Result.Added (Compare keyPath oldDocs newDocs))
      |\<inter>| fmdom (Result.Modified (Compare keyPath oldDocs newDocs)) = {||}
   \<and> fmdom (Result.Deleted (Compare keyPath oldDocs newDocs))
      |\<inter>| fmdom (Result.Modified (Compare keyPath oldDocs newDocs)) = {||}
   \<and> fmdom (Result.Added (Compare keyPath oldDocs newDocs))
      |\<union>| fmdom (Result.Deleted (Compare keyPath oldDocs newDocs))
      |\<union>| fmdom (Result.Modified (Compare keyPath oldDocs newDocs))
      = ffilter (\<lambda>k. k |\<notin>| fmdom (makeDocMap keyPath oldDocs)
                  \<or> k |\<notin>| fmdom (makeDocMap keyPath newDocs)
                  \<or> contentDiff (makeDocMap keyPath oldDocs) (makeDocMap keyPath newDocs) k \<noteq> [])
          (fset_of_list (map (identity keyPath oldDocs) oldDocs)
             |\<union>| fset_of_list (map (identity keyPath newDocs) newDocs))
   \<and> (k |\<in>| fmdom (makeDocMap keyPath oldDocs) \<and> k |\<in>| fmdom (makeDocMap keyPath newDocs)
        \<and> contentDiff (makeDocMap keyPath oldDocs) (makeDocMap keyPath newDocs) k = []
      \<longrightarrow> k |\<notin>| fmdom (Result.Added (Compare keyPath oldDocs newDocs))
        \<and> k |\<notin>| fmdom (Result.Deleted (Compare keyPath oldDocs newDocs))
        \<and> k |\<notin>| fmdom (Result.Modified (Compare keyPath oldDocs newDocs)))"
proof -
  let ?old = "fmdom (makeDocMap keyPath oldDocs)"
  let ?new = "fmdom (makeDocMap keyPath newDocs)"
  let ?changed = "\<lambda>k. contentDiff (makeDocMap keyPath oldDocs) (makeDocMap keyPath newDocs) k \<noteq> []"
  have added: "fmdom (Result.Added (Compare keyPath oldDocs newDocs)) = ?new |-| ?old"
    by (rule Added_keys)
  have deleted: "fmdom (Result.Deleted (Compare keyPath oldDocs newDocs)) = ?old |-| ?new"
    by (rule Deleted_keys)
  have modified: "fmdom (Result.Modified (Compare keyPath oldDocs newDocs))
      = ffilter ?changed (?old |\<inter>| ?new)"
    by (rule Modified_keys)
  have observed: "fset_of_list (map (identity keyPath oldDocs) oldDocs) = ?old"
    "fset_of_list (map (identity keyPath newDocs) newDocs) = ?new"
    by (simp_all add: fmdom_makeDocMap)
  have disjoint: "(?new |-| ?old) |\<inter>| (?old |-| ?new) = {||}"
    "(?new |-| ?old) |\<inter>| ffilter ?changed (?old |\<inter>| ?new) = {||}"
    "(?old |-| ?new) |\<inter>| ffilter ?changed (?old |\<inter>| ?new) = {||}"
    by auto
  have union: "(?new |-| ?old) |\<union>| (?old |-| ?new) |\<union>| ffilter ?changed (?old |\<inter>| ?new)
      = ffilter (\<lambda>k. k |\<notin>| ?old \<or> k |\<notin>| ?new \<or> ?changed k) (?old |\<union>| ?new)"
    by auto
  have unchanged: "k |\<in>| ?old \<and> k |\<in>| ?new \<and> \<not> ?changed k
      \<longrightarrow> k |\<notin>| ?new |-| ?old \<and> k |\<notin>| ?old |-| ?new
        \<and> k |\<notin>| ffilter ?changed (?old |\<inter>| ?new)"
    by auto
  show ?thesis
    unfolding added deleted modified observed
    using disjoint union unchanged by simp
qed

theorem result_key_sets_partition_witness:
  "contentDiff (makeDocMap ''metadata.name'' [docA]) (makeDocMap ''metadata.name'' [docA, docB]) ''a''
     = []
   \<and> ''a'' |\<notin>| fmdom (Result.Added (Compare ''metadata.name'' [docA] [docA, docB]))
   \<and> ''a'' |\<notin>| fmdom (Result.Deleted (Compare ''metadata.name'' [docA] [docA, docB]))
   \<and> ''a'' |\<notin>| fmdom (Result.Modified (Compare ''metadata.name'' [docA] [docA, docB]))"
proof -
  have h1: "''a'' |\<in>| fmdom (makeDocMap ''metadata.name'' [docA])"
    by code_simp
  have h2: "''a'' |\<in>| fmdom (makeDocMap ''metadata.name'' [docA, docB])"
    by code_simp
  have h3: "contentDiff (makeDocMap ''metadata.name'' [docA])
      (makeDocMap ''metadata.name'' [docA, docB]) ''a'' = []"
    by code_simp
  from result_key_sets_partition [of "''metadata.name''" "[docA]" "[docA, docB]" "''a''"]
    h1 h2 h3
  show ?thesis by blast
qed

text \<open>
  C3. For any two document sets A and B, the identities added from A to B are the
  identities deleted from B to A, and the identities deleted from A to B are the identities
  added from B to A.
\<close>

theorem added_deleted_symmetry:
  "fmdom (Result.Added (Compare keyPath A B)) = fmdom (Result.Deleted (Compare keyPath B A))
   \<and> fmdom (Result.Deleted (Compare keyPath A B)) = fmdom (Result.Added (Compare keyPath B A))"
proof
  have "fmdom (Result.Added (Compare keyPath A B))
      = fmdom (makeDocMap keyPath B) |-| fmdom (makeDocMap keyPath A)"
    by (rule Added_keys)
  also have "\<dots> = fmdom (Result.Deleted (Compare keyPath B A))"
    by (rule Deleted_keys [symmetric])
  finally show "fmdom (Result.Added (Compare keyPath A B))
      = fmdom (Result.Deleted (Compare keyPath B A))" .
next
  have "fmdom (Result.Deleted (Compare keyPath A B))
      = fmdom (makeDocMap keyPath A) |-| fmdom (makeDocMap keyPath B)"
    by (rule Deleted_keys)
  also have "\<dots> = fmdom (Result.Added (Compare keyPath B A))"
    by (rule Added_keys [symmetric])
  finally show "fmdom (Result.Deleted (Compare keyPath A B))
      = fmdom (Result.Added (Compare keyPath B A))" .
qed

theorem added_deleted_symmetry_witness:
  "fmdom (Result.Deleted (Compare ''metadata.name'' [docB] [docA])) = {|''b''|}
   \<and> fmdom (Result.Added (Compare ''metadata.name'' [docB] [docA])) = {|''a''|}"
proof -
  have a: "fmdom (Result.Added (Compare ''metadata.name'' [docA] [docB])) = {|''b''|}"
    by code_simp
  have d: "fmdom (Result.Deleted (Compare ''metadata.name'' [docA] [docB])) = {|''a''|}"
    by code_simp
  from added_deleted_symmetry [of "''metadata.name''" "[docA]" "[docB]"] a d
  show ?thesis by simp
qed

text \<open>
  C4. For every document set, comparing it with itself gives a Result whose \<open>added\<close>,
  \<open>deleted\<close> and \<open>modified\<close> mappings are empty.
\<close>

theorem compare_with_itself_empty:
  "Result.Added (Compare keyPath docs docs) = fmempty
   \<and> Result.Deleted (Compare keyPath docs docs) = fmempty
   \<and> Result.Modified (Compare keyPath docs docs) = fmempty"
proof -
  have "fmdom (Result.Added (Compare keyPath docs docs)) = {||}"
    "fmdom (Result.Deleted (Compare keyPath docs docs)) = {||}"
    "fmdom (Result.Modified (Compare keyPath docs docs)) = {||}"
    by (simp_all add: Added_keys Deleted_keys Modified_keys contentDiff_same)
  then show ?thesis
    by (metis len_zero_iff len_def fcard_fempty)
qed

theorem compare_with_itself_empty_witness:
  "Result.Added (Compare ''metadata.name'' [docA, docB] [docA, docB]) = fmempty
   \<and> Result.Deleted (Compare ''metadata.name'' [docA, docB] [docA, docB]) = fmempty
   \<and> Result.Modified (Compare ''metadata.name'' [docA, docB] [docA, docB]) = fmempty"
  by (rule compare_with_itself_empty)

text \<open>
  C5, as amended. When \<open>git show\<close> fails for a file and the current version of the file is
  read and decoded without error, \<open>ParseFilesWithSourceTracking\<close> adds no old-side document
  for the file, appends the documents decoded from the current version to the new side, and
  goes on to the next file without an error. Whenever the function returns its two lists,
  no old-side document carries a file whose \<open>git show\<close> failed, and the current version of
  such a file was read and decoded into new-side documents. When \<open>git show\<close> fails for a
  file and reading or decoding its current version fails, the function returns that error.
\<close>

theorem new_file_contributes_no_old_documents:
  "(gitShow w branch file = Inl gitErr \<and> readFile w file = Inr content
      \<and> decodeDocuments w (cleanYAMLContent content) file = Inr docs
    \<longrightarrow> parseFilesLoop w branch (file # files) oldDocs newDocs
          = parseFilesLoop w branch files oldDocs (newDocs @ docs)
        \<and> ParseFilesWithSourceTracking w branch [file] = Inr ([], docs))
   \<and> (ParseFilesWithSourceTracking w branch files = Inr (oldDocs', newDocs')
      \<and> file \<in> set files \<and> gitShow w branch file = Inl gitErr
    \<longrightarrow> (\<forall>d \<in> set oldDocs'. SourceFile d \<noteq> file)
        \<and> (\<exists>content docs. readFile w file = Inr content
              \<and> decodeDocuments w (cleanYAMLContent content) file = Inr docs
              \<and> set docs \<subseteq> set newDocs'))
   \<and> (gitShow w branch file = Inl gitErr \<and> readFile w file = Inl err
    \<longrightarrow> parseFilesLoop w branch (file # files) oldDocs newDocs
          = Inl (Wrap (''failed to read '' @ file) err))
   \<and> (gitShow w branch file = Inl gitErr \<and> readFile w file = Inr content
      \<and> decodeDocuments w (cleanYAMLContent content) file = Inl err
    \<longrightarrow> parseFilesLoop w branch (file # files) oldDocs newDocs
          = Inl (Wrap (''failed to parse new version of '' @ file) err))"
proof (intro conjI impI)
  assume a: "gitShow w branch file = Inl gitErr \<and> readFile w file = Inr content
      \<and> decodeDocuments w (cleanYAMLContent content) file = Inr docs"
  then show "parseFilesLoop w branch (file # files) oldDocs newDocs
          = parseFilesLoop w branch files oldDocs (newDocs @ docs)"
    by simp
  from a show "ParseFilesWithSourceTracking w branch [file] = Inr ([], docs)"
    by (simp add: ParseFilesWithSourceTracking_def)
next
  assume a: "ParseFilesWithSourceTracking w branch files = Inr (oldDocs', newDocs')
      \<and> file \<in> set files \<and> gitShow w branch file = Inl gitErr"
  then have run: "parseFilesLoop w branch files [] [] = Inr (oldDocs', newDocs')"
    by (simp add: ParseFilesWithSourceTracking_def)
  show "\<forall>d \<in> set oldDocs'. SourceFile d \<noteq> file"
  proof
    fix d
    assume "d \<in> set oldDocs'"
    from parseFilesLoop_old_sources [OF run this]
    have "\<exists>output. gitShow w branch (SourceFile d) = Inr output"
      by simp
    with a show "SourceFile d \<noteq> file"
      by auto
  qed
  from parseFilesLoop_current_read [OF run] a
  obtain content docs where rd: "readFile w file = Inr content"
    and dc: "decodeDocuments w (cleanYAMLContent content) file = Inr docs"
    by blast
  from parseFilesLoop_new_docs [OF run _ rd dc] a have "set docs \<subseteq> set newDocs'"
    by simp
  with rd dc show "\<exists>content docs. readFile w file = Inr content
      \<and> decodeDocuments w (cleanYAMLContent content) file = Inr docs
      \<and> set docs \<subseteq> set newDocs'"
    by blast
next
  assume "gitShow w branch file = Inl gitErr \<and> readFile w file = Inl err"
  then show "parseFilesLoop w branch (file # files) oldDocs newDocs
      = Inl (Wrap (''failed to read '' @ file) err)"
    by simp
next
  assume "gitShow w branch file = Inl gitErr \<and> readFile w file = Inr content
      \<and> decodeDocuments w (cleanYAMLContent content) file = Inl err"
  then show "parseFilesLoop w branch (file # files) oldDocs newDocs
      = Inl (Wrap (''failed to parse new version of '' @ file) err)"
    by simp
qed

theorem new_file_contributes_no_old_documents_witness:
  "gitShow exampleWorld ''main'' ''a.yaml'' = Inl (Failure ''exit status 128'')
   \<and> ParseFilesWithSourceTracking exampleWorld ''main'' [''a.yaml'']
       = Inr ([], [docB\<lparr>SourceFile := ''a.yaml''\<rparr>])
   \<and> parseFilesLoop exampleWorld ''main'' [''gone.yaml'', ''a.yaml''] [] []
       = Inl (Wrap ''failed to read gone.yaml'' (Failure ''no such file or directory''))"
proof -
  have g2: "gitShow exampleWorld ''main'' ''gone.yaml'' = Inl (Failure ''exit status 128'')"
    by code_simp
  have r2: "readFile exampleWorld ''gone.yaml'' = Inl (Failure ''no such file or directory'')"
    by code_simp
  have n: "''failed to read '' @ ''gone.yaml'' = ''failed to read gone.yaml''"
    by simp
  from new_file_contributes_no_old_documents
         [of exampleWorld "''main''" "''gone.yaml''" "Failure ''exit status 128''" _ _
             "[''a.yaml'']" "[]" "[]" _ _ "Failure ''no such file or directory''"]
       g2 r2 n
  have gone: "parseFilesLoop exampleWorld ''main'' [''gone.yaml'', ''a.yaml''] [] []
       = Inl (Wrap ''failed to read gone.yaml'' (Failure ''no such file or directory''))"
    by metis
  have g: "gitShow exampleWorld ''main'' ''a.yaml'' = Inl (Failure ''exit status 128'')"
    by code_simp
  have r: "readFile exampleWorld ''a.yaml''
    = Inr ''# new file\<newline>metadata:\<newline>  name: b\<newline>''"
    by code_simp
  have d: "decodeDocuments exampleWorld
      (cleanYAMLContent ''# new file\<newline>metadata:\<newline>  name: b\<newline>'') ''a.yaml''
    = Inr [docB\<lparr>SourceFile := ''a.yaml''\<rparr>]"
    by code_simp
  from new_file_contributes_no_old_documents
         [of exampleWorld "''main''" "''a.yaml''" "Failure ''exit status 128''"
             "''# new file\<newline>metadata:\<newline>  name: b\<newline>''"
             "[docB\<lparr>SourceFile := ''a.yaml''\<rparr>]"]
       g r d
  have "ParseFilesWithSourceTracking exampleWorld ''main'' [''a.yaml'']
       = Inr ([], [docB\<lparr>SourceFile := ''a.yaml''\<rparr>])"
    by blast
  with g gone show ?thesis by simp
qed

text \<open>
  The claim C5 as it was stated fails: \<open>bad.yaml\<close> is not on the branch, so \<open>git show\<close>
  fails for it, and the function returns an error for that file, since its current version
  does not decode.
\<close>

theorem new_file_error_counterexample:
  "gitShow exampleWorld ''main'' ''bad.yaml'' = Inl (Failure ''exit status 128'')
   \<and> ParseFilesWithSourceTracking exampleWorld ''main'' [''bad.yaml'']
       = Inl (Wrap ''failed to parse new version of bad.yaml''
                (Failure ''yaml: did not find expected node content''))"
  by code_simp

text \<open>
  C6. For every Result, the labels that the label step of \<open>handleConfigBasedIntegration\<close>
  computes from it are the labels of the policies that apply: the label for additions
  exactly when \<open>len(added) > 0\<close>, the label for deletions exactly when \<open>len(deleted) > 0\<close>,
  the label for modifications exactly when \<open>len(modified) > 0\<close>, and the label for no
  changes exactly when the three counts are zero, in which case it is the only label. Unless
  labels are disabled, the step hands exactly these labels to \<open>AddLabels\<close>, and the request
  that reaches GitHub, from the step and from \<open>handleConfigBasedIntegration\<close>, carries the
  nonempty ones among them.
\<close>

theorem labels_follow_policies:
  "(let added = len (Result.Added r);
        deleted = len (Result.Deleted r);
        modified = len (Result.Modified r);
        policies = labelPolicies added deleted modified;
        labels = GetLabels cfg added deleted modified;
        valid = filter (\<lambda>label. label \<noteq> []) labels
    in labels = map (labelOf cfg) policies
     \<and> (HasAdditions \<in> set policies \<longleftrightarrow> added > 0)
     \<and> (HasDeletions \<in> set policies \<longleftrightarrow> deleted > 0)
     \<and> (HasModifications \<in> set policies \<longleftrightarrow> modified > 0)
     \<and> (NoChanges \<in> set policies \<longleftrightarrow> added = 0 \<and> deleted = 0 \<and> modified = 0)
     \<and> (added = 0 \<and> deleted = 0 \<and> modified = 0 \<longrightarrow> labels = [WhenNoChanges cfg])
     \<and> (distinct [WhenHasAdditions cfg, WhenHasDeletions cfg, WhenHasModifications cfg,
                   WhenNoChanges cfg]
          \<longrightarrow> (WhenHasAdditions cfg \<in> set labels \<longleftrightarrow> added > 0)
            \<and> (WhenHasDeletions cfg \<in> set labels \<longleftrightarrow> deleted > 0)
            \<and> (WhenHasModifications cfg \<in> set labels \<longleftrightarrow> modified > 0)
            \<and> (WhenNoChanges cfg \<in> set labels \<longleftrightarrow> added = 0 \<and> deleted = 0 \<and> modified = 0))
     \<and> (DisableLabel cfg \<longrightarrow> addConfiguredLabels w c cfg repo r = ([], None))
     \<and> (\<not> DisableLabel cfg
          \<longrightarrow> fst (addConfiguredLabels w c cfg repo r) = fst (AddLabels w repo (GithubPR c) labels)
            \<and> snd (addConfiguredLabels w c cfg repo r)
                = map_option (Wrap ''error adding labels'')
                    (snd (AddLabels w repo (GithubPR c) labels)))
     \<and> (\<not> DisableLabel cfg \<and> GITHUB_TOKEN w \<noteq> [] \<and> parseRepo repo = Inr (owner, name)
          \<and> valid \<noteq> []
          \<longrightarrow> fst (addConfiguredLabels w c cfg repo r)
                = [LabelsRequest owner name (GithubPR c) valid])
     \<and> (LoadConfig w (CompareCmd.Config c) = Inr conf \<and> Compare_section conf = cfg
          \<and> repo = (if GithubRepo c \<noteq> [] then GithubRepo c else RepoFullName conf)
          \<and> repo \<noteq> [] \<and> GithubPR c \<noteq> 0 \<and> GITHUB_TOKEN w \<noteq> []
          \<and> postConfiguredComment w c cfg repo r details = (reqs, None)
          \<and> \<not> DisableLabel cfg \<and> parseRepo repo = Inr (owner, name) \<and> valid \<noteq> []
          \<longrightarrow> fst (handleConfigBasedIntegration w c r details)
                = reqs @ [LabelsRequest owner name (GithubPR c) valid]))"
proof -
  let ?a = "len (Result.Added r)"
  let ?d = "len (Result.Deleted r)"
  let ?m = "len (Result.Modified r)"
  let ?ps = "labelPolicies ?a ?d ?m"
  let ?labels = "GetLabels cfg ?a ?d ?m"
  let ?valid = "filter (\<lambda>label. label \<noteq> []) ?labels"
  note props = labelPolicies_props [of ?a ?d ?m]
  have map: "?labels = map (labelOf cfg) ?ps"
    by (simp add: GetLabels_def)
  have none: "?a = 0 \<and> ?d = 0 \<and> ?m = 0 \<longrightarrow> ?labels = [WhenNoChanges cfg]"
    by (simp add: GetLabels_def labelPolicies_def labelOf_def)
  have strings: "distinct [WhenHasAdditions cfg, WhenHasDeletions cfg, WhenHasModifications cfg,
                   WhenNoChanges cfg]
          \<longrightarrow> (WhenHasAdditions cfg \<in> set ?labels \<longleftrightarrow> ?a > 0)
            \<and> (WhenHasDeletions cfg \<in> set ?labels \<longleftrightarrow> ?d > 0)
            \<and> (WhenHasModifications cfg \<in> set ?labels \<longleftrightarrow> ?m > 0)
            \<and> (WhenNoChanges cfg \<in> set ?labels \<longleftrightarrow> ?a = 0 \<and> ?d = 0 \<and> ?m = 0)"
    by (auto simp: GetLabels_def labelPolicies_def labelOf_def)
  have disabled: "DisableLabel cfg \<longrightarrow> addConfiguredLabels w c cfg repo r = ([], None)"
    by (simp add: addConfiguredLabels_def)
  have nonempty: "?labels \<noteq> []"
    by (rule GetLabels_not_Nil)
  have step: "\<not> DisableLabel cfg
      \<longrightarrow> fst (addConfiguredLabels w c cfg repo r) = fst (AddLabels w repo (GithubPR c) ?labels)
        \<and> snd (addConfiguredLabels w c cfg repo r)
            = map_option (Wrap ''error adding labels'')
                (snd (AddLabels w repo (GithubPR c) ?labels))"
  proof
    assume enabled: "\<not> DisableLabel cfg"
    obtain sent err where sent: "AddLabels w repo (GithubPR c) ?labels = (sent, err)"
      by (cases "AddLabels w repo (GithubPR c) ?labels")
    with enabled nonempty
    show "fst (addConfiguredLabels w c cfg repo r) = fst (AddLabels w repo (GithubPR c) ?labels)
        \<and> snd (addConfiguredLabels w c cfg repo r)
            = map_option (Wrap ''error adding labels'')
                (snd (AddLabels w repo (GithubPR c) ?labels))"
      by (cases err) (simp_all add: addConfiguredLabels_def Let_def)
  qed
  have request: "fst (addConfiguredLabels w c cfg repo r)
      = [LabelsRequest owner name (GithubPR c) ?valid]"
    if "\<not> DisableLabel cfg" "GITHUB_TOKEN w \<noteq> []" "parseRepo repo = Inr (owner, name)"
      "?valid \<noteq> []"
  proof -
    from that(2-4)
    have "fst (AddLabels w repo (GithubPR c) ?labels)
      = [LabelsRequest owner name (GithubPR c) ?valid]"
      by (rule AddLabels_request)
    with step that(1) show ?thesis by simp
  qed
  have handle: "fst (handleConfigBasedIntegration w c r details)
      = reqs @ [LabelsRequest owner name (GithubPR c) ?valid]"
    if h: "LoadConfig w (CompareCmd.Config c) = Inr conf \<and> Compare_section conf = cfg
      \<and> repo = (if GithubRepo c \<noteq> [] then GithubRepo c else RepoFullName conf)
      \<and> repo \<noteq> [] \<and> GithubPR c \<noteq> 0 \<and> GITHUB_TOKEN w \<noteq> []
      \<and> postConfiguredComment w c cfg repo r details = (reqs, None)
      \<and> \<not> DisableLabel cfg \<and> parseRepo repo = Inr (owner, name) \<and> ?valid \<noteq> []"
  proof -
    from h have enabled: "\<not> DisableLabel cfg" and env: "GITHUB_TOKEN w \<noteq> []"
      and parsed: "parseRepo repo = Inr (owner, name)" and some: "?valid \<noteq> []"
      by blast+
    have req: "fst (addConfiguredLabels w c cfg repo r)
      = [LabelsRequest owner name (GithubPR c) ?valid]"
      by (rule request [OF enabled env parsed some])
    obtain sent err where s: "addConfiguredLabels w c cfg repo r = (sent, err)"
      by (cases "addConfiguredLabels w c cfg repo r")
    from env have token: "(if GithubToken c = [] then GITHUB_TOKEN w else GithubToken c) \<noteq> []"
      by simp
    from h have loaded: "LoadConfig w (CompareCmd.Config c) = Inr conf"
      and sect: "Compare_section conf = cfg"
      and chosen: "(if GithubRepo c \<noteq> [] then GithubRepo c else RepoFullName conf) = repo"
      and given: "repo \<noteq> []" and pr: "GithubPR c \<noteq> 0"
      and comment: "postConfiguredComment w c cfg repo r details = (reqs, None)"
      by blast+
    have "handleConfigBasedIntegration w c r details = (reqs @ sent, err)"
      unfolding handleConfigBasedIntegration_def Let_def loaded sum.case sect chosen
      using given pr token comment s by simp
    with req s show ?thesis by simp
  qed
  show ?thesis
    unfolding Let_def
    using map props none strings disabled step request handle by blast
qed

theorem labels_follow_policies_witness:
  "GetLabels exampleConfig
     (len (Result.Added (Compare ''metadata.name'' [docA] [docA])))
     (len (Result.Deleted (Compare ''metadata.name'' [docA] [docA])))
     (len (Result.Modified (Compare ''metadata.name'' [docA] [docA])))
   = [''config-sync/no-changes'']
   \<and> fst (handleConfigBasedIntegration configWorld configCmd exampleResult [])
   = [LabelsRequest ''owner'' ''repo'' 7 [''config-sync/add'', ''config-sync/destroy'']]"
proof -
  have z: "len (Result.Added (Compare ''metadata.name'' [docA] [docA])) = 0
    \<and> len (Result.Deleted (Compare ''metadata.name'' [docA] [docA])) = 0
    \<and> len (Result.Modified (Compare ''metadata.name'' [docA] [docA])) = 0"
    by code_simp
  have l: "WhenNoChanges exampleConfig = ''config-sync/no-changes''"
    by code_simp
  from labels_follow_policies [of "Compare ''metadata.name'' [docA] [docA]" exampleConfig] z
  have "GetLabels exampleConfig
     (len (Result.Added (Compare ''metadata.name'' [docA] [docA])))
     (len (Result.Deleted (Compare ''metadata.name'' [docA] [docA])))
     (len (Result.Modified (Compare ''metadata.name'' [docA] [docA])))
   = [WhenNoChanges exampleConfig]"
    unfolding Let_def by blast
  with l have first: "GetLabels exampleConfig
     (len (Result.Added (Compare ''metadata.name'' [docA] [docA])))
     (len (Result.Deleted (Compare ''metadata.name'' [docA] [docA])))
     (len (Result.Modified (Compare ''metadata.name'' [docA] [docA])))
   = [''config-sync/no-changes'']"
    by simp
  have h: "LoadConfig configWorld (CompareCmd.Config configCmd) = Inr exampleConf
      \<and> Compare_section exampleConf = exampleConfig
      \<and> ''owner/repo'' = (if GithubRepo configCmd \<noteq> [] then GithubRepo configCmd
                           else RepoFullName exampleConf)
      \<and> ''owner/repo'' \<noteq> ([] :: string) \<and> GithubPR configCmd \<noteq> 0
      \<and> GITHUB_TOKEN configWorld \<noteq> []
      \<and> postConfiguredComment configWorld configCmd exampleConfig ''owner/repo'' exampleResult []
          = ([], None)
      \<and> \<not> DisableLabel exampleConfig \<and> parseRepo ''owner/repo'' = Inr (''owner'', ''repo'')"
    by code_simp
  have v: "filter (\<lambda>label. label \<noteq> [])
      (GetLabels exampleConfig (len (Result.Added exampleResult))
        (len (Result.Deleted exampleResult)) (len (Result.Modified exampleResult)))
    = [''config-sync/add'', ''config-sync/destroy'']"
    by code_simp
  have pr: "GithubPR configCmd = 7"
    by code_simp
  from v have nv: "filter (\<lambda>label. label \<noteq> [])
      (GetLabels exampleConfig (len (Result.Added exampleResult))
        (len (Result.Deleted exampleResult)) (len (Result.Modified exampleResult))) \<noteq> []"
    by simp
  from labels_follow_policies
         [where r = exampleResult and cfg = exampleConfig and w = configWorld and c = configCmd
            and repo = "''owner/repo''" and owner = "''owner''" and name = "''repo''"
            and conf = exampleConf and details = "[]" and reqs = "[]"]
    h nv
  have "fst (handleConfigBasedIntegration configWorld configCmd exampleResult [])
    = [] @ [LabelsRequest ''owner'' ''repo'' (GithubPR configCmd)
        (filter (\<lambda>label. label \<noteq> [])
          (GetLabels exampleConfig (len (Result.Added exampleResult))
            (len (Result.Deleted exampleResult)) (len (Result.Modified exampleResult))))]"
    unfolding Let_def by blast
  with v pr first show ?thesis by simp
qed

text \<open>
  C7. For every Result, the field \<open>Summary\<close> that \<open>PrepareTemplateData\<close> sets is the string
  \<open>Plan: <A> to add, <D> to delete, <M> to modify\<close>, where the three numerals are the decimal
  texts of the sizes of \<open>Added\<close>, \<open>Deleted\<close> and \<open>Modified\<close>. For no old document and one
  new document whose \<open>metadata.name\<close> is \<open>b\<close>, the Result has that document under \<open>b\<close> as
  its only entry and the summary is \<open>Plan: 1 to add, 0 to delete, 0 to modify\<close>.
\<close>

theorem summary_is_plan_line:
  "Summary (PrepareTemplateData addedKeys deletedKeys modifiedKeys result details link vars)
     = ''Plan: '' @ fmtInt (int (len (Result.Added result))) @ '' to add, ''
         @ fmtInt (int (len (Result.Deleted result))) @ '' to delete, ''
         @ fmtInt (int (len (Result.Modified result))) @ '' to modify''
   \<and> decimalValue (fmtInt (int (len (Result.Added result)))) = len (Result.Added result)
   \<and> decimalValue (fmtInt (int (len (Result.Deleted result)))) = len (Result.Deleted result)
   \<and> decimalValue (fmtInt (int (len (Result.Modified result)))) = len (Result.Modified result)
   \<and> (lookupPath [''metadata'', ''name''] (Mapping (Content doc)) = Some (Scalar (SStr ''b''))
      \<longrightarrow> Compare ''metadata.name'' [] [doc]
            = \<lparr>Result.Added = fmupd ''b'' doc fmempty,
               Result.Deleted = fmempty, Result.Modified = fmempty\<rparr>
        \<and> Summary (PrepareTemplateData addedKeys deletedKeys modifiedKeys
              (Compare ''metadata.name'' [] [doc]) details link vars)
            = ''Plan: 1 to add, 0 to delete, 0 to modify'')"
proof (intro conjI impI)
  show "Summary (PrepareTemplateData addedKeys deletedKeys modifiedKeys result details link vars)
     = ''Plan: '' @ fmtInt (int (len (Result.Added result))) @ '' to add, ''
         @ fmtInt (int (len (Result.Deleted result))) @ '' to delete, ''
         @ fmtInt (int (len (Result.Modified result))) @ '' to modify''"
    by (simp add: PrepareTemplateData_def Let_def)
next
  assume "lookupPath [''metadata'', ''name''] (Mapping (Content doc)) = Some (Scalar (SStr ''b''))"
  then have "resolve doc ''metadata.name'' = ''b''"
    by (simp add: resolve_def Split_metadata_name scalarText_def)
  then show c: "Compare ''metadata.name'' [] [doc]
      = \<lparr>Result.Added = fmupd ''b'' doc fmempty,
         Result.Deleted = fmempty, Result.Modified = fmempty\<rparr>"
    by (simp add: Compare_one_new)
  show "Summary (PrepareTemplateData addedKeys deletedKeys modifiedKeys
      (Compare ''metadata.name'' [] [doc]) details link vars)
    = ''Plan: 1 to add, 0 to delete, 0 to modify''"
    by (simp add: c PrepareTemplateData_def Let_def len_empty len_single fmtInt_0 fmtInt_1)
qed (rule decimalValue_fmtInt)+

theorem summary_is_plan_line_witness:
  "Summary (PrepareTemplateData [''b''] [] [] (Compare ''metadata.name'' [] [docB])
      ''details'' ''link'' fmempty)
   = ''Plan: 1 to add, 0 to delete, 0 to modify''"
proof -
  have h: "lookupPath [''metadata'', ''name''] (Mapping (Content docB))
    = Some (Scalar (SStr ''b''))"
    by code_simp
  from summary_is_plan_line
         [of "[''b'']" "[]" "[]" "Compare ''metadata.name'' [] [docB]" "''details''" "''link''"
             fmempty docB] h
  show ?thesis by blast
qed

text \<open>
  C8. For every Result and every order in which the three \<open>range\<close> statements may visit its
  keys, the lists \<open>AddedList\<close>, \<open>DeletedList\<close> and \<open>ModifiedList\<close> of the template data are
  sorted lexicographically and hold exactly the keys of the three mappings; \<open>Added\<close>,
  \<open>Deleted\<close> and \<open>Modified\<close> are the sizes of the mappings (and the lengths of the lists);
  \<open>HasChanges\<close> is true exactly when one of the mappings is nonempty; and a second call on
  the same Result, with whatever other orders of \<open>range\<close>, gives the same template data.
\<close>

theorem template_lists_sorted_and_counts_derived:
  assumes "rangeOrder (Result.Added r) addedKeys"
    and "rangeOrder (Result.Deleted r) deletedKeys"
    and "rangeOrder (Result.Modified r) modifiedKeys"
    and "rangeOrder (Result.Added r) addedKeys'"
    and "rangeOrder (Result.Deleted r) deletedKeys'"
    and "rangeOrder (Result.Modified r) modifiedKeys'"
  shows "(let td = PrepareTemplateData addedKeys deletedKeys modifiedKeys r details link vars in
      sorted (AddedList td) \<and> sorted (DeletedList td) \<and> sorted (ModifiedList td)
      \<and> AddedList td = sorted_list_of_fset (fmdom (Result.Added r))
      \<and> DeletedList td = sorted_list_of_fset (fmdom (Result.Deleted r))
      \<and> ModifiedList td = sorted_list_of_fset (fmdom (Result.Modified r))
      \<and> TemplateData.Added td = len (Result.Added r)
      \<and> TemplateData.Deleted td = len (Result.Deleted r)
      \<and> TemplateData.Modified td = len (Result.Modified r)
      \<and> length (AddedList td) = TemplateData.Added td
      \<and> length (DeletedList td) = TemplateData.Deleted td
      \<and> length (ModifiedList td) = TemplateData.Modified td
      \<and> (HasChanges td \<longleftrightarrow> Result.Added r \<noteq> fmempty \<or> Result.Deleted r \<noteq> fmempty
            \<or> Result.Modified r \<noteq> fmempty)
      \<and> PrepareTemplateData addedKeys' deletedKeys' modifiedKeys' r details link vars = td)"
proof -
  have lists: "sort addedKeys = sorted_list_of_fset (fmdom (Result.Added r))"
    "sort deletedKeys = sorted_list_of_fset (fmdom (Result.Deleted r))"
    "sort modifiedKeys = sorted_list_of_fset (fmdom (Result.Modified r))"
    using assms(1-3) by (simp_all add: sort_rangeOrder)
  have lengths: "length addedKeys = len (Result.Added r)"
    "length deletedKeys = len (Result.Deleted r)"
    "length modifiedKeys = len (Result.Modified r)"
    using assms(1-3) by (simp_all add: length_rangeOrder)
  have same: "PrepareTemplateData addedKeys' deletedKeys' modifiedKeys' r details link vars
    = PrepareTemplateData addedKeys deletedKeys modifiedKeys r details link vars"
    by (rule PrepareTemplateData_any_order
          [OF assms(1) assms(4) assms(2) assms(5) assms(3) assms(6), symmetric])
  have fields: "AddedList (PrepareTemplateData addedKeys deletedKeys modifiedKeys r details link vars)
      = sort addedKeys"
    "DeletedList (PrepareTemplateData addedKeys deletedKeys modifiedKeys r details link vars)
      = sort deletedKeys"
    "ModifiedList (PrepareTemplateData addedKeys deletedKeys modifiedKeys r details link vars)
      = sort modifiedKeys"
    "TemplateData.Added (PrepareTemplateData addedKeys deletedKeys modifiedKeys r details link vars)
      = len (Result.Added r)"
    "TemplateData.Deleted (PrepareTemplateData addedKeys deletedKeys modifiedKeys r details link vars)
      = len (Result.Deleted r)"
    "TemplateData.Modified (PrepareTemplateData addedKeys deletedKeys modifiedKeys r details link vars)
      = len (Result.Modified r)"
    "HasChanges (PrepareTemplateData addedKeys deletedKeys modifiedKeys r details link vars)
      = HasDifferences r"
    by (simp_all add: PrepareTemplateData_def Let_def)
  have sorted: "sorted (sort addedKeys)" "sorted (sort deletedKeys)" "sorted (sort modifiedKeys)"
    by simp_all
  have lens: "length (sort addedKeys) = len (Result.Added r)"
    "length (sort deletedKeys) = len (Result.Deleted r)"
    "length (sort modifiedKeys) = len (Result.Modified r)"
    using lengths by simp_all
  show ?thesis
    unfolding Let_def fields same
    using sorted lens lists by (simp add: HasDifferences_iff)
qed

theorem template_lists_sorted_and_counts_derived_witness:
  "AddedList (PrepareTemplateData [''b'', ''a''] [''c''] [] exampleResult ''details'' ''link'' fmempty)
     = [''a'', ''b'']
   \<and> PrepareTemplateData [''a'', ''b''] [''c''] [] exampleResult ''details'' ''link'' fmempty
     = PrepareTemplateData [''b'', ''a''] [''c''] [] exampleResult ''details'' ''link'' fmempty"
proof -
  have o1: "rangeOrder (Result.Added exampleResult) [''b'', ''a'']"
    by code_simp
  have o2: "rangeOrder (Result.Deleted exampleResult) [''c'']"
    by code_simp
  have o3: "rangeOrder (Result.Modified exampleResult) []"
    by code_simp
  have o4: "rangeOrder (Result.Added exampleResult) [''a'', ''b'']"
    by code_simp
  have k: "sorted_list_of_fset (fmdom (Result.Added exampleResult)) = [''a'', ''b'']"
    by code_simp
  from template_lists_sorted_and_counts_derived [OF o1 o2 o3 o4 o2 o3, of "''details''" "''link''" fmempty] k
  show ?thesis by (simp add: Let_def)
qed

text \<open>
  C9. For every byte content, \<open>cleanYAMLContent\<close> removes exactly the leading run of lines
  whose trimmed form is a comment, empty, or the separator \<open>---\<close>, and returns the lines from
  the first other line onward unchanged, joined by newlines as they were (a comment, blank or
  separator line after the first real line is kept); when every line belongs to the leading
  run the result is the empty byte slice.
\<close>

theorem cleanYAMLContent_removes_leading_run:
  "(Split content newline = skipped @ line # rest \<and> (\<forall>l \<in> set skipped. leadingLine l)
      \<and> \<not> leadingLine line
    \<longrightarrow> cleanYAMLContent content = Join (line # rest) newline)
   \<and> ((\<forall>l \<in> set (Split content newline). leadingLine l) \<longrightarrow> cleanYAMLContent content = [])"
proof (intro conjI impI)
  assume a: "Split content newline = skipped @ line # rest \<and>
    (\<forall>l \<in> set skipped. leadingLine l) \<and> \<not> leadingLine line"
  then have "dropWhile leadingLine (Split content newline) = line # rest"
    by (simp add: dropWhile_append3)
  then show "cleanYAMLContent content = Join (line # rest) newline"
    by (simp add: cleanYAMLContent_dropWhile)
next
  assume "\<forall>l \<in> set (Split content newline). leadingLine l"
  then have "dropWhile leadingLine (Split content newline) = []"
    by simp
  then show "cleanYAMLContent content = []"
    by (simp add: cleanYAMLContent_dropWhile del: dropWhile_eq_Nil_conv)
qed

theorem cleanYAMLContent_removes_leading_run_witness:
  "cleanYAMLContent
     ''# c\<newline>---\<newline>\<newline>foo: 1\<newline> # keep\<newline>---\<newline>bar: 2\<newline>''
     = ''foo: 1\<newline> # keep\<newline>---\<newline>bar: 2\<newline>''
   \<and> cleanYAMLContent ''  # only\<newline> --- \<newline>'' = []"
proof -
  have s1: "Split ''# c\<newline>---\<newline>\<newline>foo: 1\<newline> # keep\<newline>---\<newline>bar: 2\<newline>'' newline
     = [''# c'', ''---'', ''''] @ ''foo: 1'' # ['' # keep'', ''---'', ''bar: 2'', '''']"
    by code_simp
  have s2: "\<forall>l \<in> set [''# c'', ''---'', '''']. leadingLine l"
    by code_simp
  have s3: "\<not> leadingLine ''foo: 1''"
    by code_simp
  have s4: "\<forall>l \<in> set (Split ''  # only\<newline> --- \<newline>'' newline). leadingLine l"
    by code_simp
  have s5: "Join (''foo: 1'' # ['' # keep'', ''---'', ''bar: 2'', '''']) newline
     = ''foo: 1\<newline> # keep\<newline>---\<newline>bar: 2\<newline>''"
    by code_simp
  from cleanYAMLContent_removes_leading_run
         [of "''# c\<newline>---\<newline>\<newline>foo: 1\<newline> # keep\<newline>---\<newline>bar: 2\<newline>''"
             "[''# c'', ''---'', '''']" "''foo: 1''" "['' # keep'', ''---'', ''bar: 2'', '''']"]
       cleanYAMLContent_removes_leading_run [of "''  # only\<newline> --- \<newline>''" "[]" "[]" "[]"]
       s1 s2 s3 s4 s5
  show ?thesis by metis
qed

text \<open>
  C10, as amended. \<open>parseRepo\<close> accepts a repository string exactly when it holds one
  \<open>/\<close>; the string \<open>/\<close> is accepted, with an empty owner and an empty name. For a string
  with no \<open>/\<close> or with two or more, \<open>PostComment\<close>, \<open>AddLabel\<close> and \<open>AddLabels\<close> return the
  repository-format error, having sent no request, when \<open>GITHUB_TOKEN\<close> is set and, for
  \<open>AddLabel\<close>, the label is not empty and, for \<open>AddLabels\<close>, some label is not empty. For a
  string with one \<open>/\<close> none of the three returns that error. Whatever the repository
  string is, \<open>AddLabel\<close> with the empty label and \<open>AddLabels\<close> without a nonempty label
  return \<open>nil\<close>, and without the token the three functions (given a nonempty label) return
  the error of the client.
\<close>

theorem repository_needs_one_slash:
  "(parseRepo repo = Inl (InvalidRepositoryFormat repo) \<longleftrightarrow> count_list repo CHR ''/'' \<noteq> 1)
   \<and> (count_list repo CHR ''/'' = 1 \<longrightarrow> (\<exists>owner name. parseRepo repo = Inr (owner, name)))
   \<and> parseRepo ''/'' = Inr ([], [])
   \<and> (count_list repo CHR ''/'' \<noteq> 1 \<and> GITHUB_TOKEN w \<noteq> []
        \<longrightarrow> PostComment w repo pr body = ([], Some (InvalidRepositoryFormat repo)))
   \<and> (count_list repo CHR ''/'' \<noteq> 1 \<and> GITHUB_TOKEN w \<noteq> [] \<and> label \<noteq> []
        \<longrightarrow> AddLabel w repo pr label = ([], Some (InvalidRepositoryFormat repo)))
   \<and> (count_list repo CHR ''/'' \<noteq> 1 \<and> GITHUB_TOKEN w \<noteq> [] \<and> (\<exists>l \<in> set labels. l \<noteq> [])
        \<longrightarrow> AddLabels w repo pr labels = ([], Some (InvalidRepositoryFormat repo)))
   \<and> (count_list repo CHR ''/'' = 1
        \<longrightarrow> snd (PostComment w repo pr body) \<noteq> Some (InvalidRepositoryFormat repo)
          \<and> snd (AddLabel w repo pr label) \<noteq> Some (InvalidRepositoryFormat repo)
          \<and> snd (AddLabels w repo pr labels) \<noteq> Some (InvalidRepositoryFormat repo))
   \<and> AddLabel w repo pr [] = ([], None)
   \<and> ((\<forall>l \<in> set labels. l = []) \<longrightarrow> AddLabels w repo pr labels = ([], None))
   \<and> (GITHUB_TOKEN w = []
        \<longrightarrow> PostComment w repo pr body
            = ([], Some (Wrap ''failed to create GitHub client''
                          (Failure ''GITHUB_TOKEN environment variable is not set''))))
   \<and> (GITHUB_TOKEN w = [] \<and> label \<noteq> []
        \<longrightarrow> AddLabel w repo pr label
            = ([], Some (Wrap ''failed to create GitHub client''
                          (Failure ''GITHUB_TOKEN environment variable is not set''))))
   \<and> (GITHUB_TOKEN w = [] \<and> (\<exists>l \<in> set labels. l \<noteq> [])
        \<longrightarrow> AddLabels w repo pr labels
            = ([], Some (Wrap ''failed to create GitHub client''
                          (Failure ''GITHUB_TOKEN environment variable is not set''))))"
proof (intro conjI impI)
  show "parseRepo repo = Inl (InvalidRepositoryFormat repo) \<longleftrightarrow> count_list repo CHR ''/'' \<noteq> 1"
    by (rule parseRepo_error_iff)
next
  assume "count_list repo CHR ''/'' = 1"
  then show "\<exists>owner name. parseRepo repo = Inr (owner, name)"
    by (rule parseRepo_ok)
next
  show "parseRepo ''/'' = Inr ([], [])"
    by (simp add: parseRepo_def)
next
  assume "count_list repo CHR ''/'' \<noteq> 1 \<and> GITHUB_TOKEN w \<noteq> []"
  then show "PostComment w repo pr body = ([], Some (InvalidRepositoryFormat repo))"
    by (simp add: PostComment_def getClient_def parseRepo_bad)
next
  assume "count_list repo CHR ''/'' \<noteq> 1 \<and> GITHUB_TOKEN w \<noteq> [] \<and> label \<noteq> []"
  then show "AddLabel w repo pr label = ([], Some (InvalidRepositoryFormat repo))"
    by (simp add: AddLabel_def getClient_def parseRepo_bad)
next
  assume a: "count_list repo CHR ''/'' \<noteq> 1 \<and> GITHUB_TOKEN w \<noteq> [] \<and> (\<exists>l \<in> set labels. l \<noteq> [])"
  then have "filter (\<lambda>label. label \<noteq> []) labels \<noteq> []" "labels \<noteq> []"
    by (auto simp: filter_empty_conv)
  with a show "AddLabels w repo pr labels = ([], Some (InvalidRepositoryFormat repo))"
    by (simp add: AddLabels_def getClient_def parseRepo_bad Let_def)
next
  assume "count_list repo CHR ''/'' = 1"
  then obtain owner name where ok: "parseRepo repo = Inr (owner, name)"
    using parseRepo_ok by blast
  show "snd (PostComment w repo pr body) \<noteq> Some (InvalidRepositoryFormat repo)"
    using ok by (simp add: PostComment_def getClient_def split: option.splits)
  show "snd (AddLabel w repo pr label) \<noteq> Some (InvalidRepositoryFormat repo)"
    using ok by (simp add: AddLabel_def getClient_def split: option.splits)
  show "snd (AddLabels w repo pr labels) \<noteq> Some (InvalidRepositoryFormat repo)"
    using ok by (simp add: AddLabels_def getClient_def Let_def split: option.splits)
next
  show "AddLabel w repo pr [] = ([], None)"
    by (simp add: AddLabel_def)
next
  assume "\<forall>l \<in> set labels. l = []"
  then have "filter (\<lambda>label. label \<noteq> []) labels = []"
    by (simp add: filter_empty_conv)
  then show "AddLabels w repo pr labels = ([], None)"
    by (simp add: AddLabels_def Let_def)
next
  assume "GITHUB_TOKEN w = []"
  then show "PostComment w repo pr body
      = ([], Some (Wrap ''failed to create GitHub client''
                    (Failure ''GITHUB_TOKEN environment variable is not set'')))"
    by (simp add: PostComment_def getClient_def)
next
  assume "GITHUB_TOKEN w = [] \<and> label \<noteq> []"
  then show "AddLabel w repo pr label
      = ([], Some (Wrap ''failed to create GitHub client''
                    (Failure ''GITHUB_TOKEN environment variable is not set'')))"
    by (simp add: AddLabel_def getClient_def)
next
  assume a: "GITHUB_TOKEN w = [] \<and> (\<exists>l \<in> set labels. l \<noteq> [])"
  then have "filter (\<lambda>label. label \<noteq> []) labels \<noteq> []" "labels \<noteq> []"
    by (auto simp: filter_empty_conv)
  with a show "AddLabels w repo pr labels
      = ([], Some (Wrap ''failed to create GitHub client''
                    (Failure ''GITHUB_TOKEN environment variable is not set'')))"
    by (simp add: AddLabels_def getClient_def Let_def)
qed

theorem repository_needs_one_slash_witness:
  "PostComment exampleWorld ''a/b/c'' 7 ''body'' = ([], Some (InvalidRepositoryFormat ''a/b/c''))
   \<and> AddLabel exampleWorld ''a/b/c'' 7 ''yaml/changed''
       = ([], Some (InvalidRepositoryFormat ''a/b/c''))
   \<and> AddLabels exampleWorld ''a/b/c'' 7 ['''', ''yaml/changed'']
       = ([], Some (InvalidRepositoryFormat ''a/b/c''))
   \<and> parseRepo ''owner/repo'' \<noteq> Inl (InvalidRepositoryFormat ''owner/repo'')
   \<and> AddLabels exampleWorld ''a/b/c'' 7 ['''', ''''] = ([], None)
   \<and> AddLabel noTokenWorld ''a/b/c'' 7 ''yaml/changed''
       = ([], Some (Wrap ''failed to create GitHub client''
                     (Failure ''GITHUB_TOKEN environment variable is not set'')))"
proof -
  have e: "\<forall>l \<in> set ['''', '''']. l = ([] :: string)"
    by simp
  have nt: "GITHUB_TOKEN noTokenWorld = []"
    by code_simp
  from repository_needs_one_slash
         [of "''a/b/c''" exampleWorld 7 "''body''" "''yaml/changed''" "['''', '''']"] e
  have w1: "AddLabels exampleWorld ''a/b/c'' 7 ['''', ''''] = ([], None)"
    by blast
  from repository_needs_one_slash
         [of "''a/b/c''" noTokenWorld 7 "''body''" "''yaml/changed''" "['''', '''']"] nt
  have w2: "AddLabel noTokenWorld ''a/b/c'' 7 ''yaml/changed''
       = ([], Some (Wrap ''failed to create GitHub client''
                     (Failure ''GITHUB_TOKEN environment variable is not set'')))"
    by simp
  have c3: "count_list ''a/b/c'' CHR ''/'' \<noteq> 1"
    by code_simp
  have c1: "count_list ''owner/repo'' CHR ''/'' = 1"
    by code_simp
  have t: "GITHUB_TOKEN exampleWorld \<noteq> []"
    by code_simp
  have l: "''yaml/changed'' \<noteq> []" "\<exists>l \<in> set ['''', ''yaml/changed'']. l \<noteq> []"
    by simp_all
  from repository_needs_one_slash
         [of "''a/b/c''" exampleWorld 7 "''body''" "''yaml/changed''" "['''', ''yaml/changed'']"]
       repository_needs_one_slash
         [of "''owner/repo''" exampleWorld 7 "''body''" "''yaml/changed''" "['''', ''yaml/changed'']"]
       c3 c1 t l w1 w2
  show ?thesis by blast
qed

text \<open>
  The claim C10 as it was stated fails: for the repository string \<open>owner-repo\<close>, which has
  no \<open>/\<close>, \<open>AddLabels\<close> without a nonempty label and \<open>AddLabel\<close> with the empty label return
  \<open>nil\<close>, and \<open>PostComment\<close> without a token returns the error of the client.
\<close>

theorem repository_check_skipped_counterexample:
  "count_list ''owner-repo'' CHR ''/'' = 0
   \<and> AddLabels exampleWorld ''owner-repo'' 7 ['''', ''''] = ([], None)
   \<and> AddLabel exampleWorld ''owner-repo'' 7 '''' = ([], None)
   \<and> PostComment noTokenWorld ''owner-repo'' 7 ''body''
       = ([], Some (Wrap ''failed to create GitHub client''
                     (Failure ''GITHUB_TOKEN environment variable is not set'')))"
  by code_simp

end
